theory Spec2Isabelle
  imports Main "HOL-Library.Finite_Map"
begin

section \<open>Plan requirement computation of fgo-planner-web-client\<close>

text \<open>
  This theory embeds the class \<open>PlanComputationUtils\<close> (the plan requirement computation
  engine of the web client) and proves properties of it.

  Conventions of the embedding:
  \<^item> JavaScript numbers that count materials or QP are \<open>int\<close>; identifiers and levels, which
    the source obtains as object keys through \<open>Number(key)\<close>, are \<open>nat\<close>.
  \<^item> An object with numeric keys that the source walks with \<open>Object.entries\<close> is a finite
    map (\<open>fmap\<close>); an object that is only indexed is a map \<open>nat \<rightharpoonup> 'v\<close>.
  \<^item> An optional or nullable property is an \<open>option\<close>; its truthiness is written out.
  \<^item> A method that mutates its first argument returns the updated argument.
  \<^item> Record fields carry a prefix naming their type (\<open>ir_\<close>, \<open>er_\<close>, \<open>se_\<close>, ...), since
    several types of the source share field names; private methods, whose names start
    with an underscore in the source, carry the prefix \<open>priv_\<close>.
\<close>

subsection \<open>Objects with numeric keys\<close>

text \<open>
  \<open>Object.entries\<close> lists the entries of an object whose keys are array indices in
  ascending order of the key, whatever the order of insertion was.
\<close>

definition object_entries :: "(nat, 'v) fmap \<Rightarrow> (nat \<times> 'v) list" where
  "object_entries m =
     List.map_filter (\<lambda>k. map_option (Pair k) (fmlookup m k)) (sorted_list_of_fset (fmdom m))"

text \<open>
  Modelled from the spec: \<open>ObjectUtils.getOrDefault\<close> of the package
  \<open>@fgo-planner/common-core\<close> is not part of the sources. It returns the entry of the
  object under the key; when there is none it stores the freshly instantiated default
  under the key first ("auto-vivification of missing material entries"). The result is
  the entry together with the object as it is afterwards.
\<close>

definition getOrDefault :: "('k, 'v) fmap \<Rightarrow> 'k \<Rightarrow> 'v \<Rightarrow> 'v \<times> ('k, 'v) fmap" where
  "getOrDefault obj key instantiate =
     (case fmlookup obj key of
        Some v \<Rightarrow> (v, obj)
      | None \<Rightarrow> (instantiate, fmupd key instantiate obj))"

subsection \<open>Requirement records\<close>

text \<open>\<open>PlanEnhancementItemRequirements\<close>: the per-category counters of one material.\<close>

record item_requirements =
  ir_ascensions :: int
  ir_skills :: int
  ir_appendSkills :: int
  ir_costumes :: int
  ir_total :: int

text \<open>The ember counters, keyed by the rarities 1 to 5.\<close>

record embers =
  em_1 :: int
  em_2 :: int
  em_3 :: int
  em_4 :: int
  em_5 :: int

text \<open>\<open>PlanEnhancementRequirements\<close>.\<close>

record enhancement_requirements =
  er_embers :: embers
  er_items :: "(nat, item_requirements) fmap"
  er_qp :: int

definition priv_instantiateEnhancementItemRequirements :: item_requirements where
  "priv_instantiateEnhancementItemRequirements =
     \<lparr>ir_ascensions = 0, ir_skills = 0, ir_appendSkills = 0, ir_costumes = 0, ir_total = 0\<rparr>"

definition priv_instantiateEnhancementRequirements :: enhancement_requirements where
  "priv_instantiateEnhancementRequirements =
     \<lparr>er_embers = \<lparr>em_1 = 0, em_2 = 0, em_3 = 0, em_4 = 0, em_5 = 0\<rparr>,
      er_items = fmempty,
      er_qp = 0\<rparr>"

definition priv_addEnhancementItemRequirements ::
  "item_requirements \<Rightarrow> item_requirements \<Rightarrow> item_requirements" where
  "priv_addEnhancementItemRequirements target source =
     \<lparr>ir_ascensions = ir_ascensions target + ir_ascensions source,
      ir_skills = ir_skills target + ir_skills source,
      ir_appendSkills = ir_appendSkills target + ir_appendSkills source,
      ir_costumes = ir_costumes target + ir_costumes source,
      ir_total = ir_total target + ir_total source\<rparr>"

text \<open>
  The first loop of \<open>addEnhancementRequirements\<close>: every rarity of the source is added
  to the same rarity of the target.
\<close>

definition add_embers :: "embers \<Rightarrow> embers \<Rightarrow> embers" where
  "add_embers targetEmbers sourceEmbers =
     \<lparr>em_1 = em_1 targetEmbers + em_1 sourceEmbers,
      em_2 = em_2 targetEmbers + em_2 sourceEmbers,
      em_3 = em_3 targetEmbers + em_3 sourceEmbers,
      em_4 = em_4 targetEmbers + em_4 sourceEmbers,
      em_5 = em_5 targetEmbers + em_5 sourceEmbers\<rparr>"

text \<open>
  One round of the second loop: an entry the target lacks is copied (\<open>{ ...value }\<close>),
  an entry it has is added to.
\<close>

definition add_item_entry ::
  "nat \<times> item_requirements \<Rightarrow> (nat, item_requirements) fmap \<Rightarrow> (nat, item_requirements) fmap" where
  "add_item_entry entry targetItems =
     (case entry of (itemId, val) \<Rightarrow>
        (case fmlookup targetItems itemId of
           None \<Rightarrow> fmupd itemId val targetItems
         | Some t \<Rightarrow> fmupd itemId (priv_addEnhancementItemRequirements t val) targetItems))"

definition addEnhancementRequirements ::
  "enhancement_requirements \<Rightarrow> enhancement_requirements \<Rightarrow> enhancement_requirements" where
  "addEnhancementRequirements target source =
     \<lparr>er_embers = add_embers (er_embers target) (er_embers source),
      er_items = fold add_item_entry (object_entries (er_items source)) (er_items target),
      er_qp = er_qp target + er_qp source\<rparr>"

definition sumEnhancementRequirements ::
  "enhancement_requirements list \<Rightarrow> enhancement_requirements" where
  "sumEnhancementRequirements arr =
     fold (\<lambda>enhancementRequirements result.
             addEnhancementRequirements result enhancementRequirements)
       arr priv_instantiateEnhancementRequirements"

subsection \<open>Computation options\<close>

text \<open>
  \<open>ComputationOptions\<close>: every property is optional. A condition on an optional boolean
  holds when the property is present and true; \<open>a && b\<close> is \<open>a\<close> when \<open>a\<close> is falsy and
  \<open>b\<close> otherwise.
\<close>

record computation_options =
  co_includeAscensions :: "bool option"
  co_includeSkills :: "bool option"
  co_includeAppendSkills :: "bool option"
  co_includeCostumes :: "bool option"
  co_excludeLores :: "bool option"

definition truthy :: "bool option \<Rightarrow> bool" where
  "truthy b = (case b of Some v \<Rightarrow> v | None \<Rightarrow> False)"

definition js_and :: "bool option \<Rightarrow> bool option \<Rightarrow> bool option" where
  "js_and a b = (if truthy a then b else a)"

definition priv_defaultOptions :: computation_options where
  "priv_defaultOptions =
     \<lparr>co_includeAscensions = Some True,
      co_includeSkills = Some True,
      co_includeAppendSkills = Some True,
      co_includeCostumes = Some True,
      co_excludeLores = None\<rparr>"

text \<open>
  The \<open>enabled\<close> flags of a plan, and those of a plan servant, which have the flag
  \<open>servant\<close> in addition.
\<close>

record plan_enabled =
  en_ascensions :: bool
  en_skills :: bool
  en_appendSkills :: bool
  en_costumes :: bool

record plan_servant_enabled = plan_enabled +
  en_servant :: bool

text \<open>
  \<open>_parseComputationOptions\<close> reads \<open>data.enabled\<close> of a plan or of a plan servant;
  the embedding passes it \<open>data.enabled\<close>.
\<close>

definition priv_parseComputationOptions :: "'a plan_enabled_scheme \<Rightarrow> computation_options" where
  "priv_parseComputationOptions enabled =
     \<lparr>co_includeAscensions = Some (en_ascensions enabled),
      co_includeSkills = Some (en_skills enabled),
      co_includeAppendSkills = Some (en_appendSkills enabled),
      co_includeCostumes = Some (en_costumes enabled),
      co_excludeLores = None\<rparr>"

definition priv_mergeComputationOptions ::
  "computation_options \<Rightarrow> computation_options \<Rightarrow> computation_options" where
  "priv_mergeComputationOptions a b =
     \<lparr>co_includeAscensions = js_and (co_includeAscensions a) (co_includeAscensions a),
      co_includeSkills = js_and (co_includeSkills a) (co_includeSkills b),
      co_includeAppendSkills = js_and (co_includeAppendSkills a) (co_includeAppendSkills b),
      co_includeCostumes = js_and (co_includeCostumes a) (co_includeCostumes b),
      co_excludeLores = js_and (co_excludeLores a) (co_excludeLores b)\<rparr>"

subsection \<open>Enhancement states and the catalog\<close>

text \<open>
  Modelled from the spec: the constants \<open>InstantiatedServantConstants.MaxSkillLevel\<close> and
  \<open>MaxAscensionLevel\<close> of the package \<open>@fgo-planner/data-core\<close> are not part of the
  sources; skill levels range over 1..10 and ascension levels over 0..4.
\<close>

definition MaxSkillLevel :: nat where
  "MaxSkillLevel = 10"

definition MaxAscensionLevel :: nat where
  "MaxAscensionLevel = 4"

text \<open>\<open>SkillEnhancements\<close> and \<open>ServantEnhancements\<close>; every level may be absent.\<close>

record skill_enhancements =
  sk_1 :: "nat option"
  sk_2 :: "nat option"
  sk_3 :: "nat option"

record servant_enhancements =
  se_ascension :: "nat option"
  se_skills :: skill_enhancements
  se_appendSkills :: skill_enhancements

text \<open>
  A master servant and a plan servant are enhancement states with further properties,
  and the source passes them where enhancements are expected.
\<close>

record master_servant = servant_enhancements +
  ms_instanceId :: nat
  ms_gameId :: nat

record plan_servant = servant_enhancements +
  ps_instanceId :: nat
  ps_enabled :: plan_servant_enabled

definition priv_defaultTargetEnhancements :: servant_enhancements where
  "priv_defaultTargetEnhancements =
     \<lparr>se_ascension = Some MaxAscensionLevel,
      se_skills = \<lparr>sk_1 = Some MaxSkillLevel, sk_2 = Some MaxSkillLevel, sk_3 = Some MaxSkillLevel\<rparr>,
      se_appendSkills =
        \<lparr>sk_1 = Some MaxSkillLevel, sk_2 = Some MaxSkillLevel, sk_3 = Some MaxSkillLevel\<rparr>\<rparr>"

text \<open>
  Modelled from the spec: \<open>InstantiatedServantUtils.instantiateEnhancements\<close>,
  \<open>updateEnhancements\<close> and \<open>cloneEnhancements\<close> of the package \<open>@fgo-planner/data-core\<close>
  are not part of the sources. \<open>updateEnhancements(target, source)\<close> overwrites the
  enhancement properties of the target with those of the source ("promote the target
  state recorded so far into the new current baseline"); \<open>cloneEnhancements\<close> gives a
  new enhancement state with the properties of its argument; \<open>instantiateEnhancements\<close>
  gives a new enhancement state, which the engine overwrites at once.
\<close>

definition instantiateEnhancements :: servant_enhancements where
  "instantiateEnhancements =
     \<lparr>se_ascension = None,
      se_skills = \<lparr>sk_1 = None, sk_2 = None, sk_3 = None\<rparr>,
      se_appendSkills = \<lparr>sk_1 = None, sk_2 = None, sk_3 = None\<rparr>\<rparr>"

definition updateEnhancements ::
  "'a servant_enhancements_scheme \<Rightarrow> 'b servant_enhancements_scheme \<Rightarrow> 'a servant_enhancements_scheme" where
  "updateEnhancements target source =
     target\<lparr>se_ascension := se_ascension source,
            se_skills := se_skills source,
            se_appendSkills := se_appendSkills source\<rparr>"

definition cloneEnhancements :: "'a servant_enhancements_scheme \<Rightarrow> servant_enhancements" where
  "cloneEnhancements source =
     \<lparr>se_ascension = se_ascension source,
      se_skills = se_skills source,
      se_appendSkills = se_appendSkills source\<rparr>"

text \<open>
  The catalog: \<open>GameServantEnhancement\<close> (materials and QP of one step), the costumes and
  the servant. The table of ascension materials is optional; the tables of skill
  materials, of append skill materials and of costumes are not.
\<close>

record game_servant_enhancement =
  ge_materials :: "(nat, int) fmap"
  ge_qp :: int

record game_servant_costume =
  gc_materials :: game_servant_enhancement

record game_servant =
  gs_skillMaterials :: "(nat, game_servant_enhancement) fmap"
  gs_appendSkillMaterials :: "(nat, game_servant_enhancement) fmap"
  gs_ascensionMaterials :: "(nat, game_servant_enhancement) fmap option"
  gs_costumes :: "(nat, game_servant_costume) fmap"

type_synonym game_servant_map = "nat \<rightharpoonup> game_servant"

subsection \<open>The unit requirement calculator\<close>

text \<open>The keys of \<open>PlanEnhancementItemRequirements\<close>, and \<open>itemCount[propertyKey] += total\<close>.\<close>

datatype property_key = Ascensions | Skills | AppendSkills | Costumes | Total

fun add_to_property :: "property_key \<Rightarrow> int \<Rightarrow> item_requirements \<Rightarrow> item_requirements" where
  "add_to_property Ascensions n itemCount = itemCount\<lparr>ir_ascensions := ir_ascensions itemCount + n\<rparr>"
| "add_to_property Skills n itemCount = itemCount\<lparr>ir_skills := ir_skills itemCount + n\<rparr>"
| "add_to_property AppendSkills n itemCount =
     itemCount\<lparr>ir_appendSkills := ir_appendSkills itemCount + n\<rparr>"
| "add_to_property Costumes n itemCount = itemCount\<lparr>ir_costumes := ir_costumes itemCount + n\<rparr>"
| "add_to_property Total n itemCount = itemCount\<lparr>ir_total := ir_total itemCount + n\<rparr>"

text \<open>One round of the material loop of \<open>_updateEnhancementRequirementResult\<close>.\<close>

definition update_item_count ::
  "property_key \<Rightarrow> int \<Rightarrow> nat \<times> int \<Rightarrow> (nat, item_requirements) fmap
    \<Rightarrow> (nat, item_requirements) fmap" where
  "update_item_count propertyKey enhancementCount entry resultItems =
     (case entry of (itemId, quantity) \<Rightarrow>
        (case getOrDefault resultItems itemId priv_instantiateEnhancementItemRequirements of
           (itemCount, resultItems') \<Rightarrow>
             (let total = quantity * enhancementCount;
                  itemCount1 = add_to_property propertyKey total itemCount;
                  itemCount2 = itemCount1\<lparr>ir_total := ir_total itemCount1 + total\<rparr>
              in fmupd itemId itemCount2 resultItems')))"

definition priv_updateEnhancementRequirementResult ::
  "enhancement_requirements \<Rightarrow> game_servant_enhancement \<Rightarrow> property_key \<Rightarrow> int
    \<Rightarrow> enhancement_requirements" where
  "priv_updateEnhancementRequirementResult result enhancement propertyKey enhancementCount =
     result\<lparr>er_items :=
              fold (update_item_count propertyKey enhancementCount)
                (object_entries (ge_materials enhancement)) (er_items result),
            er_qp := er_qp result + ge_qp enhancement * enhancementCount\<rparr>"

text \<open>\<open>level || 0\<close> on a level that may be absent.\<close>

definition or_zero :: "nat option \<Rightarrow> nat" where
  "or_zero level = (case level of None \<Rightarrow> 0 | Some n \<Rightarrow> n)"

text \<open>The number of skills that need to be upgraded to a level.\<close>

definition skillUpgradeCount :: "skill_enhancements \<Rightarrow> skill_enhancements \<Rightarrow> nat \<Rightarrow> int" where
  "skillUpgradeCount currentSkills targetSkills skillLevel =
     (if or_zero (sk_1 currentSkills) > skillLevel \<or> skillLevel \<ge> or_zero (sk_1 targetSkills)
      then 0 else 1) +
     (if or_zero (sk_2 currentSkills) > skillLevel \<or> skillLevel \<ge> or_zero (sk_2 targetSkills)
      then 0 else 1) +
     (if or_zero (sk_3 currentSkills) > skillLevel \<or> skillLevel \<ge> or_zero (sk_3 targetSkills)
      then 0 else 1)"

text \<open>One round of the loop of \<open>_updateResultForSkills\<close>.\<close>

definition skill_step ::
  "skill_enhancements \<Rightarrow> skill_enhancements \<Rightarrow> property_key \<Rightarrow> bool option
    \<Rightarrow> nat \<times> game_servant_enhancement \<Rightarrow> enhancement_requirements \<Rightarrow> enhancement_requirements" where
  "skill_step currentSkills targetSkills skillType excludeLores entry result =
     (case entry of (skillLevel, skill) \<Rightarrow>
        if truthy excludeLores \<and> skillLevel = MaxSkillLevel - 1 then result
        else if skillUpgradeCount currentSkills targetSkills skillLevel = 0 then result
        else priv_updateEnhancementRequirementResult result skill skillType
               (skillUpgradeCount currentSkills targetSkills skillLevel))"

definition priv_updateResultForSkills ::
  "enhancement_requirements \<Rightarrow> (nat, game_servant_enhancement) fmap \<Rightarrow> skill_enhancements
    \<Rightarrow> skill_enhancements \<Rightarrow> property_key \<Rightarrow> bool option \<Rightarrow> enhancement_requirements" where
  "priv_updateResultForSkills result skillMaterials currentSkills targetSkills skillType excludeLores =
     fold (skill_step currentSkills targetSkills skillType excludeLores)
       (object_entries skillMaterials) result"

text \<open>One round of the ascension loop and of the costume loop.\<close>

definition ascension_step ::
  "nat option \<Rightarrow> nat \<Rightarrow> nat \<times> game_servant_enhancement \<Rightarrow> enhancement_requirements
    \<Rightarrow> enhancement_requirements" where
  "ascension_step currentAscensionLevel targetAscension entry result =
     (case entry of (ascensionLevel, ascension) \<Rightarrow>
        if or_zero currentAscensionLevel \<ge> ascensionLevel \<or> ascensionLevel > targetAscension
        then result
        else priv_updateEnhancementRequirementResult result ascension Ascensions 1)"

definition costume_step ::
  "nat set \<Rightarrow> nat set option \<Rightarrow> nat \<times> game_servant_costume \<Rightarrow> enhancement_requirements
    \<Rightarrow> enhancement_requirements" where
  "costume_step currentCostumes targetCostumes entry result =
     (case entry of (costumeId, costume) \<Rightarrow>
        if costumeId \<in> currentCostumes
           \<or> (case targetCostumes of None \<Rightarrow> False | Some tc \<Rightarrow> costumeId \<notin> tc)
        then result
        else priv_updateEnhancementRequirementResult result (gc_materials costume) Costumes 1)"

text \<open>
  \<open>_computeServantEnhancementRequirements\<close>. The target costume set and the options are
  optional parameters; the options default to \<open>_defaultOptions\<close> when they are not given
  (\<open>options = this._defaultOptions\<close> in the parameter list).
\<close>

definition default_parameter :: "computation_options option \<Rightarrow> computation_options" where
  "default_parameter optionsArg =
     (case optionsArg of None \<Rightarrow> priv_defaultOptions | Some opts \<Rightarrow> opts)"

definition priv_computeServantEnhancementRequirements ::
  "game_servant \<Rightarrow> 'a servant_enhancements_scheme \<Rightarrow> nat set \<Rightarrow> 'b servant_enhancements_scheme
    \<Rightarrow> nat set option \<Rightarrow> computation_options option \<Rightarrow> enhancement_requirements" where
  "priv_computeServantEnhancementRequirements gameServant currentEnhancements currentCostumes
      targetEnhancements targetCostumes optionsArg =
     (let options = default_parameter optionsArg;
          result0 = priv_instantiateEnhancementRequirements;
          result1 =
            (if truthy (co_includeSkills options)
             then priv_updateResultForSkills result0 (gs_skillMaterials gameServant)
                    (se_skills currentEnhancements) (se_skills targetEnhancements) Skills
                    (co_excludeLores options)
             else result0);
          result2 =
            (if truthy (co_includeAppendSkills options)
             then priv_updateResultForSkills result1 (gs_appendSkillMaterials gameServant)
                    (se_appendSkills currentEnhancements) (se_appendSkills targetEnhancements)
                    AppendSkills (co_excludeLores options)
             else result1);
          result3 =
            (case se_ascension targetEnhancements of
               None \<Rightarrow> result2
             | Some targetAscension \<Rightarrow>
                 if truthy (co_includeAscensions options)
                 then (case gs_ascensionMaterials gameServant of
                         None \<Rightarrow> result2
                       | Some ascensionMaterials \<Rightarrow>
                           fold (ascension_step (se_ascension currentEnhancements) targetAscension)
                             (object_entries ascensionMaterials) result2)
                 else result2)
      in if truthy (co_includeCostumes options)
         then fold (costume_step currentCostumes targetCostumes)
                (object_entries (gs_costumes gameServant)) result3
         else result3)"

text \<open>
  \<open>computeServantEnhancementRequirements\<close>: the requirements against the default target,
  with every costume targeted. \<open>CollectionUtils.toReadonlySet\<close> (not part of the sources,
  see \<open>_preProcessMasterAccount\<close> below) turns the iterable of costume ids into a set.
\<close>

definition computeServantEnhancementRequirements ::
  "game_servant \<Rightarrow> 'a servant_enhancements_scheme \<Rightarrow> nat list \<Rightarrow> computation_options option
    \<Rightarrow> enhancement_requirements" where
  "computeServantEnhancementRequirements gameServant currentEnhancements currentCostumes options =
     priv_computeServantEnhancementRequirements gameServant currentEnhancements
       (set currentCostumes) priv_defaultTargetEnhancements None options"

subsection \<open>Plans, the account and the result\<close>

record plan =
  pl_id :: string
  pl_enabled :: plan_enabled
  pl_servants :: "plan_servant list"
  pl_costumes :: "nat list"

record master_account_resources =
  rs_items :: "(nat, int) fmap"
  rs_qp :: int

record master_account =
  ma_servants :: "master_servant list"
  ma_resources :: master_account_resources
  ma_costumes :: "nat list"

text \<open>\<open>MasterAccountData\<close>: the account, pre-processed for lookups.\<close>

record master_account_data =
  mad_items :: "(nat, int) fmap"
  mad_servants :: "nat \<rightharpoonup> master_servant"
  mad_costumes :: "nat set"
  mad_qp :: int

text \<open>\<open>PlanServantRequirements\<close> and \<open>PlanRequirements\<close>.\<close>

record plan_servant_requirements =
  psr_instanceId :: nat
  psr_current :: servant_enhancements
  psr_target :: servant_enhancements
  psr_requirements :: enhancement_requirements

record plan_requirements =
  pr_servants :: "nat \<rightharpoonup> plan_servant_requirements"
  pr_targetPlan :: enhancement_requirements
  pr_previousPlans :: "(string, enhancement_requirements) fmap"
  pr_group :: enhancement_requirements
  pr_itemDebt :: "(nat, int) fmap"

definition priv_instantiatePlanServantRequirements ::
  "plan_servant \<Rightarrow> master_servant \<Rightarrow> plan_servant_requirements" where
  "priv_instantiatePlanServantRequirements planServant masterServant =
     \<lparr>psr_instanceId = ps_instanceId planServant,
      psr_current = updateEnhancements instantiateEnhancements masterServant,
      psr_target = cloneEnhancements planServant,
      psr_requirements = priv_instantiateEnhancementRequirements\<rparr>"

definition priv_instantiatePlanRequirements :: plan_requirements where
  "priv_instantiatePlanRequirements =
     \<lparr>pr_servants = Map.empty,
      pr_targetPlan = priv_instantiateEnhancementRequirements,
      pr_previousPlans = fmempty,
      pr_group = priv_instantiateEnhancementRequirements,
      pr_itemDebt = fmempty\<rparr>"

text \<open>
  Modelled from the spec: \<open>CollectionUtils.mapIterableToObject\<close> and
  \<open>CollectionUtils.toReadonlySet\<close> of the package \<open>@fgo-planner/common-core\<close> and
  \<open>InstantiatedServantUtils.getInstanceId\<close> of \<open>@fgo-planner/data-core\<close> are not part of
  the sources. The first converts the roster "into a mapping from instance id to unit
  instance", here by filing every servant under its instance id in the order of the
  roster; the second turns an array of ids into the set of its elements.

  \<open>_preProcessMasterAccount\<close>.
\<close>

definition priv_preProcessMasterAccount :: "master_account \<Rightarrow> master_account_data" where
  "priv_preProcessMasterAccount masterAccount =
     \<lparr>mad_items = rs_items (ma_resources masterAccount),
      mad_servants =
        fold (\<lambda>servant obj. obj(ms_instanceId servant \<mapsto> servant))
          (ma_servants masterAccount) Map.empty,
      mad_costumes = set (ma_costumes masterAccount),
      mad_qp = rs_qp (ma_resources masterAccount)\<rparr>"

subsection \<open>The plan chain walker\<close>

text \<open>
  \<open>_computePlanServantRequirements\<close> returns the result as it has updated it, and the
  pair the source returns: the entry of the servant in the result and the requirements
  of the servant for this plan.
\<close>

definition priv_computePlanServantRequirements ::
  "plan_requirements \<Rightarrow> game_servant \<Rightarrow> master_servant \<Rightarrow> plan_servant \<Rightarrow> nat set \<Rightarrow> nat set
    \<Rightarrow> computation_options
    \<Rightarrow> plan_requirements \<times> (plan_servant_requirements \<times> enhancement_requirements) option" where
  "priv_computePlanServantRequirements result gameServant masterServant planServant
      currentCostumes targetCostumes options =
     (let instanceId = ps_instanceId planServant;
          planServantRequirements =
            (case pr_servants result instanceId of
               None \<Rightarrow> priv_instantiatePlanServantRequirements planServant masterServant
             | Some existing \<Rightarrow>
                 (let promoted =
                        existing\<lparr>psr_current :=
                                   updateEnhancements (psr_current existing) (psr_target existing)\<rparr>
                  in promoted\<lparr>psr_target := updateEnhancements (psr_target promoted) planServant\<rparr>));
          result' = result\<lparr>pr_servants := (pr_servants result)(instanceId \<mapsto> planServantRequirements)\<rparr>;
          enhancementRequirements =
            priv_computeServantEnhancementRequirements gameServant
              (psr_current planServantRequirements) currentCostumes
              (psr_target planServantRequirements) (Some targetCostumes) (Some options)
      in (result', Some (planServantRequirements, enhancementRequirements)))"

text \<open>
  The accumulation at the end of the loop body of \<open>_computePlanRequirements\<close>. The entry
  of the servant is the object held by the result under the instance id of the plan
  servant, so adding to its requirements changes the result.
\<close>

definition accumulate_requirements ::
  "plan \<Rightarrow> bool \<Rightarrow> nat \<Rightarrow> plan_servant_requirements \<Rightarrow> enhancement_requirements
    \<Rightarrow> plan_requirements \<Rightarrow> plan_requirements" where
  "accumulate_requirements plan isTargetPlan instanceId planServantRequirements
      enhancementRequirements result =
     (let result1 =
            (if isTargetPlan
             then (let planServantRequirements' =
                         planServantRequirements\<lparr>psr_requirements :=
                           addEnhancementRequirements (psr_requirements planServantRequirements)
                             enhancementRequirements\<rparr>
                   in result\<lparr>pr_servants :=
                               (pr_servants result)(instanceId \<mapsto> planServantRequirements'),
                             pr_targetPlan :=
                               addEnhancementRequirements (pr_targetPlan result)
                                 enhancementRequirements\<rparr>)
             else (case getOrDefault (pr_previousPlans result) (pl_id plan)
                          priv_instantiateEnhancementRequirements of
                     (planEnhancementRequirements, previousPlans) \<Rightarrow>
                       result\<lparr>pr_previousPlans :=
                                fmupd (pl_id plan)
                                  (addEnhancementRequirements planEnhancementRequirements
                                     enhancementRequirements)
                                  previousPlans\<rparr>))
      in result1\<lparr>pr_group := addEnhancementRequirements (pr_group result1) enhancementRequirements\<rparr>)"

text \<open>The body of the loop of \<open>_computePlanRequirements\<close> over the servants of the plan.\<close>

definition plan_servant_step ::
  "game_servant_map \<Rightarrow> master_account_data \<Rightarrow> plan \<Rightarrow> computation_options \<Rightarrow> bool \<Rightarrow> nat set
    \<Rightarrow> plan_servant \<Rightarrow> plan_requirements \<Rightarrow> plan_requirements" where
  "plan_servant_step gameServantMap masterAccountData plan options isTargetPlan targetCostumes
      planServant result =
     (if \<not> en_servant (ps_enabled planServant) then result
      else case mad_servants masterAccountData (ps_instanceId planServant) of
        None \<Rightarrow> result
      | Some masterServant \<Rightarrow>
          (case gameServantMap (ms_gameId masterServant) of
             None \<Rightarrow> result
           | Some gameServant \<Rightarrow>
               (let servantOptions = priv_parseComputationOptions (ps_enabled planServant);
                    mergedOptions = priv_mergeComputationOptions options servantOptions
                in case priv_computePlanServantRequirements result gameServant masterServant
                          planServant (mad_costumes masterAccountData) targetCostumes mergedOptions of
                     (result', None) \<Rightarrow> result'
                   | (result', Some (planServantRequirements, enhancementRequirements)) \<Rightarrow>
                       accumulate_requirements plan isTargetPlan (ps_instanceId planServant)
                         planServantRequirements enhancementRequirements result')))"

definition priv_computePlanRequirements ::
  "plan_requirements \<Rightarrow> game_servant_map \<Rightarrow> master_account_data \<Rightarrow> plan \<Rightarrow> computation_options
    \<Rightarrow> bool \<Rightarrow> plan_requirements" where
  "priv_computePlanRequirements result gameServantMap masterAccountData plan options isTargetPlan =
     (let targetCostumes = set (pl_costumes plan)
      in fold (plan_servant_step gameServantMap masterAccountData plan options isTargetPlan
                 targetCostumes)
           (pl_servants plan) result)"

text \<open>
  \<open>computePlanRequirements\<close>. The preceding plans and the options override are optional;
  the timing and the logging of the source do not reach the result and are left out.
\<close>

definition computePlanRequirements ::
  "game_servant_map \<Rightarrow> master_account \<Rightarrow> plan \<Rightarrow> plan list option \<Rightarrow> computation_options option
    \<Rightarrow> plan_requirements" where
  "computePlanRequirements gameServantMap masterAccount targetPlan previousPlans optionsOverride =
     (let result = priv_instantiatePlanRequirements;
          masterAccountData = priv_preProcessMasterAccount masterAccount;
          options =
            (case optionsOverride of
               Some override \<Rightarrow> override
             | None \<Rightarrow> priv_parseComputationOptions (pl_enabled targetPlan));
          result' =
            (case previousPlans of
               None \<Rightarrow> result
             | Some plans \<Rightarrow>
                 fold (\<lambda>plan r.
                         priv_computePlanRequirements r gameServantMap masterAccountData plan
                           options False)
                   plans result)
      in priv_computePlanRequirements result' gameServantMap masterAccountData targetPlan
           options True)"

subsection \<open>Reading a requirement record\<close>

text \<open>
  The value under a key of \<open>PlanEnhancementItemRequirements\<close>, and the quantity a requirement
  record holds for a material in a category, zero when the record has no entry for the
  material (the table of the plan requirements reads
  \<open>planRequirements.group.items[itemId]?.total || 0\<close>). Likewise the quantity of a material
  in one enhancement step of the catalog.
\<close>

fun property_of :: "property_key \<Rightarrow> item_requirements \<Rightarrow> int" where
  "property_of Ascensions itemCount = ir_ascensions itemCount"
| "property_of Skills itemCount = ir_skills itemCount"
| "property_of AppendSkills itemCount = ir_appendSkills itemCount"
| "property_of Costumes itemCount = ir_costumes itemCount"
| "property_of Total itemCount = ir_total itemCount"

definition required :: "property_key \<Rightarrow> enhancement_requirements \<Rightarrow> nat \<Rightarrow> int" where
  "required propertyKey requirements itemId =
     (case fmlookup (er_items requirements) itemId of
        None \<Rightarrow> 0
      | Some itemCount \<Rightarrow> property_of propertyKey itemCount)"

definition quantity :: "game_servant_enhancement \<Rightarrow> nat \<Rightarrow> int" where
  "quantity enhancement itemId =
     (case fmlookup (ge_materials enhancement) itemId of None \<Rightarrow> 0 | Some q \<Rightarrow> q)"

subsection \<open>The steps that count, as the specification words them\<close>

text \<open>
  The skill levels of the catalog that are looked at (all of them, but for the lore step
  when lores are excluded), the ascension breakpoints strictly above the current level
  and at or below the target, and the costumes that are not unlocked yet and are
  targeted (every costume is when the target set is undefined).
\<close>

definition skill_levels ::
  "(nat, game_servant_enhancement) fmap \<Rightarrow> bool option \<Rightarrow> (nat \<times> game_servant_enhancement) list" where
  "skill_levels skillMaterials excludeLores =
     filter (\<lambda>(skillLevel, skill). \<not> (truthy excludeLores \<and> skillLevel = MaxSkillLevel - 1))
       (object_entries skillMaterials)"

definition ascension_levels ::
  "(nat, game_servant_enhancement) fmap \<Rightarrow> nat option \<Rightarrow> nat
    \<Rightarrow> (nat \<times> game_servant_enhancement) list" where
  "ascension_levels ascensionMaterials currentAscensionLevel targetAscension =
     filter (\<lambda>(ascensionLevel, ascension).
               or_zero currentAscensionLevel < ascensionLevel \<and> ascensionLevel \<le> targetAscension)
       (object_entries ascensionMaterials)"

definition costumes_to_unlock ::
  "(nat, game_servant_costume) fmap \<Rightarrow> nat set \<Rightarrow> nat set option
    \<Rightarrow> (nat \<times> game_servant_costume) list" where
  "costumes_to_unlock costumes currentCostumes targetCostumes =
     filter (\<lambda>(costumeId, costume).
               costumeId \<notin> currentCostumes
               \<and> (case targetCostumes of None \<Rightarrow> True | Some tc \<Rightarrow> costumeId \<in> tc))
       (object_entries costumes)"

text \<open>The number of the three slots that are at or below a level and target a higher one.\<close>

definition slots_to_upgrade :: "skill_enhancements \<Rightarrow> skill_enhancements \<Rightarrow> nat \<Rightarrow> nat" where
  "slots_to_upgrade currentSkills targetSkills skillLevel =
     length (filter (\<lambda>(current, target). or_zero current \<le> skillLevel \<and> skillLevel < or_zero target)
       [(sk_1 currentSkills, sk_1 targetSkills),
        (sk_2 currentSkills, sk_2 targetSkills),
        (sk_3 currentSkills, sk_3 targetSkills)])"

subsection \<open>The chain rule as a fold with an accumulator\<close>

text \<open>
  The specification words the walk over a plan chain as a fold that carries, for every
  instance id, the target state recorded so far. A directive of a plan is processed when
  it is enabled, its instance id is in the account snapshot and the catalog has the unit.
  Its baseline is the target recorded for the instance id, or the live state of the
  account when nothing is recorded yet; its target is then recorded. These definitions
  follow the specification; the theorems compare them with the walk of the source.
\<close>

record chain_step =
  cs_gameServant :: game_servant
  cs_current :: servant_enhancements
  cs_target :: servant_enhancements
  cs_targetCostumes :: "nat set"
  cs_options :: computation_options

definition resolve_directive ::
  "game_servant_map \<Rightarrow> master_account_data \<Rightarrow> plan_servant \<Rightarrow> (master_servant \<times> game_servant) option" where
  "resolve_directive gameServantMap masterAccountData planServant =
     (if en_servant (ps_enabled planServant)
      then (case mad_servants masterAccountData (ps_instanceId planServant) of
              None \<Rightarrow> None
            | Some masterServant \<Rightarrow>
                (case gameServantMap (ms_gameId masterServant) of
                   None \<Rightarrow> None
                 | Some gameServant \<Rightarrow> Some (masterServant, gameServant)))
      else None)"

fun chain_steps ::
  "game_servant_map \<Rightarrow> master_account_data \<Rightarrow> computation_options \<Rightarrow> nat set
    \<Rightarrow> (nat \<rightharpoonup> servant_enhancements) \<Rightarrow> plan_servant list
    \<Rightarrow> chain_step list \<times> (nat \<rightharpoonup> servant_enhancements)" where
  "chain_steps gameServantMap masterAccountData options targetCostumes recorded [] = ([], recorded)"
| "chain_steps gameServantMap masterAccountData options targetCostumes recorded (d # ds) =
     (case resolve_directive gameServantMap masterAccountData d of
        None \<Rightarrow> chain_steps gameServantMap masterAccountData options targetCostumes recorded ds
      | Some (masterServant, gameServant) \<Rightarrow>
          (let step =
                 \<lparr>cs_gameServant = gameServant,
                  cs_current =
                    (case recorded (ps_instanceId d) of
                       None \<Rightarrow> cloneEnhancements masterServant
                     | Some target \<Rightarrow> target),
                  cs_target = cloneEnhancements d,
                  cs_targetCostumes = targetCostumes,
                  cs_options =
                    priv_mergeComputationOptions options
                      (priv_parseComputationOptions (ps_enabled d))\<rparr>;
               rest =
                 chain_steps gameServantMap masterAccountData options targetCostumes
                   (recorded(ps_instanceId d \<mapsto> cloneEnhancements d)) ds
           in (step # fst rest, snd rest)))"

definition plan_steps ::
  "game_servant_map \<Rightarrow> master_account_data \<Rightarrow> computation_options
    \<Rightarrow> (nat \<rightharpoonup> servant_enhancements) \<Rightarrow> plan
    \<Rightarrow> chain_step list \<times> (nat \<rightharpoonup> servant_enhancements)" where
  "plan_steps gameServantMap masterAccountData options recorded plan =
     chain_steps gameServantMap masterAccountData options (set (pl_costumes plan)) recorded
       (pl_servants plan)"

text \<open>The targets recorded after a list of plans, and the steps of all of them in order.\<close>

fun recorded_after ::
  "game_servant_map \<Rightarrow> master_account_data \<Rightarrow> computation_options
    \<Rightarrow> (nat \<rightharpoonup> servant_enhancements) \<Rightarrow> plan list \<Rightarrow> (nat \<rightharpoonup> servant_enhancements)" where
  "recorded_after gameServantMap masterAccountData options recorded [] = recorded"
| "recorded_after gameServantMap masterAccountData options recorded (p # ps) =
     recorded_after gameServantMap masterAccountData options
       (snd (plan_steps gameServantMap masterAccountData options recorded p)) ps"

fun chain_of_plans ::
  "game_servant_map \<Rightarrow> master_account_data \<Rightarrow> computation_options
    \<Rightarrow> (nat \<rightharpoonup> servant_enhancements) \<Rightarrow> plan list \<Rightarrow> chain_step list" where
  "chain_of_plans gameServantMap masterAccountData options recorded [] = []"
| "chain_of_plans gameServantMap masterAccountData options recorded (p # ps) =
     fst (plan_steps gameServantMap masterAccountData options recorded p)
     @ chain_of_plans gameServantMap masterAccountData options
         (snd (plan_steps gameServantMap masterAccountData options recorded p)) ps"

text \<open>The incremental cost of one step of the chain.\<close>

definition step_cost :: "master_account_data \<Rightarrow> chain_step \<Rightarrow> enhancement_requirements" where
  "step_cost masterAccountData step =
     priv_computeServantEnhancementRequirements (cs_gameServant step) (cs_current step)
       (mad_costumes masterAccountData) (cs_target step) (Some (cs_targetCostumes step))
       (Some (cs_options step))"

text \<open>
  Notation for the statements: the preceding plans, none when the argument is not given;
  the plan-level options of a call, \<open>optionsOverride || this._parseComputationOptions(targetPlan)\<close>;
  and the targets a result has recorded, by instance id.
\<close>

definition preceding :: "plan list option \<Rightarrow> plan list" where
  "preceding previousPlans = (case previousPlans of None \<Rightarrow> [] | Some plans \<Rightarrow> plans)"

definition plan_options :: "plan \<Rightarrow> computation_options option \<Rightarrow> computation_options" where
  "plan_options targetPlan optionsOverride =
     (case optionsOverride of
        Some override \<Rightarrow> override
      | None \<Rightarrow> priv_parseComputationOptions (pl_enabled targetPlan))"

definition recorded :: "plan_requirements \<Rightarrow> nat \<rightharpoonup> servant_enhancements" where
  "recorded result = (\<lambda>instanceId. map_option psr_target (pr_servants result instanceId))"

text \<open>
  The entry a result holds for the servant of a directive once
  \<open>_computePlanServantRequirements\<close> has run, and the step of the chain that the directive
  makes from a result.
\<close>

definition entry_after ::
  "plan_requirements \<Rightarrow> master_servant \<Rightarrow> plan_servant \<Rightarrow> plan_servant_requirements" where
  "entry_after result masterServant planServant =
     (case pr_servants result (ps_instanceId planServant) of
        None \<Rightarrow>
          \<lparr>psr_instanceId = ps_instanceId planServant,
           psr_current = cloneEnhancements masterServant,
           psr_target = cloneEnhancements planServant,
           psr_requirements = priv_instantiateEnhancementRequirements\<rparr>
      | Some existing \<Rightarrow>
          existing\<lparr>psr_current := psr_target existing,
                   psr_target := cloneEnhancements planServant\<rparr>)"

definition step_of ::
  "plan_requirements \<Rightarrow> computation_options \<Rightarrow> nat set \<Rightarrow> master_servant \<Rightarrow> game_servant
    \<Rightarrow> plan_servant \<Rightarrow> chain_step" where
  "step_of result options targetCostumes masterServant gameServant planServant =
     \<lparr>cs_gameServant = gameServant,
      cs_current =
        (case recorded result (ps_instanceId planServant) of
           None \<Rightarrow> cloneEnhancements masterServant
         | Some target \<Rightarrow> target),
      cs_target = cloneEnhancements planServant,
      cs_targetCostumes = targetCostumes,
      cs_options =
        priv_mergeComputationOptions options
          (priv_parseComputationOptions (ps_enabled planServant))\<rparr>"


subsection \<open>A small catalog, account and plans\<close>

text \<open>
  One unit of the catalog (game id 100), whose every cost is paid in the material 7: the
  skill steps 1 and 9 (the lore step), the ascension breakpoints 1 to 4 and the costume
  11. The account owns one instance of it (instance id 1) at ascension 0 with all three
  skills at a given level, no append skill, no costume.
\<close>

definition ex_cost :: "int \<Rightarrow> int \<Rightarrow> game_servant_enhancement" where
  "ex_cost q p = \<lparr>ge_materials = fmupd 7 q fmempty, ge_qp = p\<rparr>"

definition ex_unit :: game_servant where
  "ex_unit =
     \<lparr>gs_skillMaterials = fmupd 1 (ex_cost 3 100) (fmupd 9 (ex_cost 1 2000) fmempty),
      gs_appendSkillMaterials = fmempty,
      gs_ascensionMaterials =
        Some (fmupd 1 (ex_cost 1 10) (fmupd 2 (ex_cost 10 100)
               (fmupd 3 (ex_cost 100 1000) (fmupd 4 (ex_cost 1000 10000) fmempty)))),
      gs_costumes = fmupd 11 \<lparr>gc_materials = ex_cost 5 300\<rparr> fmempty\<rparr>"

definition ex_catalog :: game_servant_map where
  "ex_catalog = [100 \<mapsto> ex_unit]"

definition ex_levels :: "nat \<Rightarrow> skill_enhancements" where
  "ex_levels n = \<lparr>sk_1 = Some n, sk_2 = Some n, sk_3 = Some n\<rparr>"

definition ex_none :: skill_enhancements where
  "ex_none = \<lparr>sk_1 = None, sk_2 = None, sk_3 = None\<rparr>"

definition ex_account :: "nat \<Rightarrow> master_account" where
  "ex_account skillLevel =
     \<lparr>ma_servants =
        [\<lparr>se_ascension = Some 0, se_skills = ex_levels skillLevel, se_appendSkills = ex_none,
          ms_instanceId = 1, ms_gameId = 100\<rparr>],
      ma_resources = \<lparr>rs_items = fmempty, rs_qp = 0\<rparr>,
      ma_costumes = []\<rparr>"

definition ex_enabled :: "bool \<Rightarrow> plan_servant_enabled" where
  "ex_enabled ascensions =
     \<lparr>en_ascensions = ascensions, en_skills = True, en_appendSkills = True, en_costumes = True,
      en_servant = True\<rparr>"

text \<open>
  A directive for an instance id with a target ascension and a target level of the three
  skills, and a plan with every plan-level flag enabled.
\<close>

definition ex_directive :: "nat \<Rightarrow> nat \<Rightarrow> nat \<Rightarrow> plan_servant_enabled \<Rightarrow> plan_servant" where
  "ex_directive instanceId ascension skillLevel enabled =
     \<lparr>se_ascension = Some ascension, se_skills = ex_levels skillLevel, se_appendSkills = ex_none,
      ps_instanceId = instanceId, ps_enabled = enabled\<rparr>"

definition ex_plan :: "string \<Rightarrow> plan_servant list \<Rightarrow> nat list \<Rightarrow> plan" where
  "ex_plan name directives costumes =
     \<lparr>pl_id = name,
      pl_enabled =
        \<lparr>en_ascensions = True, en_skills = True, en_appendSkills = True, en_costumes = True\<rparr>,
      pl_servants = directives,
      pl_costumes = costumes\<rparr>"

text \<open>
  A chain of two plans for the instance: plan A targets ascension 2 and plan B ascension 4.
  Two plans that leave the levels as they are and both target the costume 11. Plan-level
  flags that are all disabled, and options that include everything and exclude lores.
\<close>

definition ex_chain_A :: plan where
  "ex_chain_A = ex_plan ''A'' [ex_directive 1 2 1 (ex_enabled True)] []"

definition ex_chain_B :: plan where
  "ex_chain_B = ex_plan ''B'' [ex_directive 1 4 1 (ex_enabled True)] []"

definition ex_costume_A :: plan where
  "ex_costume_A = ex_plan ''A'' [ex_directive 1 0 1 (ex_enabled True)] [11]"

definition ex_costume_B :: plan where
  "ex_costume_B = ex_plan ''B'' [ex_directive 1 0 1 (ex_enabled True)] [11]"

definition ex_flags_off :: plan_enabled where
  "ex_flags_off =
     \<lparr>en_ascensions = False, en_skills = False, en_appendSkills = False, en_costumes = False\<rparr>"

definition ex_exclude_lores :: computation_options where
  "ex_exclude_lores =
     \<lparr>co_includeAscensions = Some True, co_includeSkills = Some True,
      co_includeAppendSkills = Some True, co_includeCostumes = Some True,
      co_excludeLores = Some True\<rparr>"

section \<open>The engine on a store\<close>

text \<open>
  The definitions above pass every structure by value. Whether the engine changes or
  shares a structure of its caller is a question about objects and references, so the
  parts of the engine that hold on to objects or write into them are embedded a second
  time over a store. The store is the list of all objects; an address is an index into
  it; a new object is appended. The objects are the servants of the account and the
  directives of the plans (both carry enhancement properties), the enhancement states the
  engine makes, the inventory mapping, arrays and sets of costume ids, requirement
  records and their item entries.

  A reference that does not lead to an object of the expected kind cannot arise in the
  typed source; the embedding then leaves the store as it is. The catalog, and the id,
  flags and costume ids of a plan, are passed by value: the source only reads them.
\<close>

type_synonym addr = nat

record requirements_cell =
  rc_embers :: embers
  rc_items :: "(nat, addr) fmap"
  rc_qp :: int

datatype obj =
    MasterServantObj master_servant
  | PlanServantObj plan_servant
  | EnhancementsObj servant_enhancements
  | ItemsObj "(nat, int) fmap"
  | CostumeArrayObj "nat list"
  | CostumeSetObj "nat set"
  | ItemRequirementsObj item_requirements
  | RequirementsObj requirements_cell

type_synonym store = "obj list"

definition deref :: "store \<Rightarrow> addr \<Rightarrow> obj option" where
  "deref h a = (if a < length h then Some (h ! a) else None)"

definition allocate :: "store \<Rightarrow> obj \<Rightarrow> store \<times> addr" where
  "allocate h v = (h @ [v], length h)"

definition assign :: "store \<Rightarrow> addr \<Rightarrow> obj \<Rightarrow> store" where
  "assign h a v = h[a := v]"

subsection \<open>The account on the store\<close>

text \<open>
  The account refers to the array of its servants, to its inventory mapping
  (\<open>resources.items\<close>) and to the array of its unlocked costumes. \<open>_preProcessMasterAccount\<close>
  files the servants under their instance ids in a new object, takes over the reference
  to the inventory mapping (\<open>const items = masterAccount.resources.items\<close>), and makes a
  new set of the costumes (\<open>new Set(masterAccount.costumes)\<close>).
\<close>

record master_account_refs =
  mr_servants :: "addr list"
  mr_items :: addr
  mr_qp :: int
  mr_costumes :: addr

record master_account_data_refs =
  md_items :: addr
  md_servants :: "nat \<rightharpoonup> addr"
  md_costumes :: addr
  md_qp :: int

definition mapIterableToObject_st :: "store \<Rightarrow> addr list \<Rightarrow> (nat \<rightharpoonup> addr)" where
  "mapIterableToObject_st h servants =
     fold (\<lambda>servant obj.
             case deref h servant of
               Some (MasterServantObj masterServant) \<Rightarrow> obj(ms_instanceId masterServant \<mapsto> servant)
             | _ \<Rightarrow> obj)
       servants Map.empty"

definition costume_ids :: "store \<Rightarrow> addr \<Rightarrow> nat set" where
  "costume_ids h costumes =
     (case deref h costumes of
        Some (CostumeArrayObj ids) \<Rightarrow> set ids
      | Some (CostumeSetObj ids) \<Rightarrow> ids
      | _ \<Rightarrow> {})"

definition priv_preProcessMasterAccount_st ::
  "store \<Rightarrow> master_account_refs \<Rightarrow> store \<times> master_account_data_refs" where
  "priv_preProcessMasterAccount_st h masterAccount =
     (let servants = mapIterableToObject_st h (mr_servants masterAccount);
          items = mr_items masterAccount;
          (h', costumes) = allocate h (CostumeSetObj (costume_ids h (mr_costumes masterAccount)));
          qp = mr_qp masterAccount
      in (h', \<lparr>md_items = items, md_servants = servants, md_costumes = costumes, md_qp = qp\<rparr>))"

subsection \<open>Enhancement states on the store\<close>

text \<open>
  Modelled from the spec: \<open>updateEnhancements\<close>, \<open>instantiateEnhancements\<close> and
  \<open>cloneEnhancements\<close> of \<open>@fgo-planner/data-core\<close> are not part of the sources.
  \<open>updateEnhancements\<close> writes the enhancement properties of the source into the target
  object, whatever object that is, and touches no other object; \<open>instantiateEnhancements\<close>
  and \<open>cloneEnhancements\<close> make new objects that share nothing with their arguments. An
  enhancement state is one object here: the levels of its skills are part of it.
\<close>

definition read_enhancements :: "store \<Rightarrow> addr \<Rightarrow> servant_enhancements option" where
  "read_enhancements h a =
     (case deref h a of
        Some (MasterServantObj masterServant) \<Rightarrow> Some (cloneEnhancements masterServant)
      | Some (PlanServantObj planServant) \<Rightarrow> Some (cloneEnhancements planServant)
      | Some (EnhancementsObj enhancements) \<Rightarrow> Some enhancements
      | _ \<Rightarrow> None)"

definition enhancements_at :: "store \<Rightarrow> addr \<Rightarrow> servant_enhancements" where
  "enhancements_at h a =
     (case read_enhancements h a of None \<Rightarrow> instantiateEnhancements | Some enhancements \<Rightarrow> enhancements)"

definition updateEnhancements_st :: "store \<Rightarrow> addr \<Rightarrow> addr \<Rightarrow> store" where
  "updateEnhancements_st h target source =
     (case read_enhancements h source of
        None \<Rightarrow> h
      | Some enhancements \<Rightarrow>
          (case deref h target of
             Some (MasterServantObj masterServant) \<Rightarrow>
               assign h target (MasterServantObj (updateEnhancements masterServant enhancements))
           | Some (PlanServantObj planServant) \<Rightarrow>
               assign h target (PlanServantObj (updateEnhancements planServant enhancements))
           | Some (EnhancementsObj old) \<Rightarrow>
               assign h target (EnhancementsObj (updateEnhancements old enhancements))
           | _ \<Rightarrow> h))"

definition instantiateEnhancements_st :: "store \<Rightarrow> store \<times> addr" where
  "instantiateEnhancements_st h = allocate h (EnhancementsObj instantiateEnhancements)"

definition cloneEnhancements_st :: "store \<Rightarrow> addr \<Rightarrow> store \<times> addr" where
  "cloneEnhancements_st h source =
     allocate h
       (EnhancementsObj
          (case read_enhancements h source of
             None \<Rightarrow> instantiateEnhancements
           | Some enhancements \<Rightarrow> enhancements))"

subsection \<open>The plan chain walker on the store\<close>

text \<open>
  The entry of a servant in the result refers to its current and its target state. The
  requirement records of the result are kept as values here: the engine makes them, and
  no structure of the caller holds one; their addition over the store follows below. A
  plan refers to its directives.
\<close>

record plan_servant_cell =
  pc_instanceId :: nat
  pc_current :: addr
  pc_target :: addr
  pc_requirements :: enhancement_requirements

record plan_requirements_cell =
  rq_servants :: "nat \<rightharpoonup> plan_servant_cell"
  rq_targetPlan :: enhancement_requirements
  rq_previousPlans :: "(string, enhancement_requirements) fmap"
  rq_group :: enhancement_requirements
  rq_itemDebt :: "(nat, int) fmap"

record plan_refs =
  pf_id :: string
  pf_enabled :: plan_enabled
  pf_servants :: "addr list"
  pf_costumes :: "nat list"

definition priv_instantiatePlanServantRequirements_st ::
  "store \<Rightarrow> nat \<Rightarrow> addr \<Rightarrow> addr \<Rightarrow> store \<times> plan_servant_cell" where
  "priv_instantiatePlanServantRequirements_st h instanceId planServant masterServant =
     (let (h1, current) = instantiateEnhancements_st h;
          h2 = updateEnhancements_st h1 current masterServant;
          (h3, target) = cloneEnhancements_st h2 planServant
      in (h3,
          \<lparr>pc_instanceId = instanceId, pc_current = current, pc_target = target,
           pc_requirements = priv_instantiateEnhancementRequirements\<rparr>))"

definition priv_instantiatePlanRequirements_st :: plan_requirements_cell where
  "priv_instantiatePlanRequirements_st =
     \<lparr>rq_servants = Map.empty,
      rq_targetPlan = priv_instantiateEnhancementRequirements,
      rq_previousPlans = fmempty,
      rq_group = priv_instantiateEnhancementRequirements,
      rq_itemDebt = fmempty\<rparr>"

definition priv_computePlanServantRequirements_st ::
  "store \<Rightarrow> plan_requirements_cell \<Rightarrow> game_servant \<Rightarrow> addr \<Rightarrow> nat \<Rightarrow> addr \<Rightarrow> nat set \<Rightarrow> nat set
    \<Rightarrow> computation_options
    \<Rightarrow> store \<times> plan_requirements_cell \<times> (plan_servant_cell \<times> enhancement_requirements) option" where
  "priv_computePlanServantRequirements_st h result gameServant masterServant instanceId planServant
      currentCostumes targetCostumes options =
     (let (h', planServantRequirements) =
            (case rq_servants result instanceId of
               None \<Rightarrow>
                 priv_instantiatePlanServantRequirements_st h instanceId planServant masterServant
             | Some existing \<Rightarrow>
                 (let h1 = updateEnhancements_st h (pc_current existing) (pc_target existing);
                      h2 = updateEnhancements_st h1 (pc_target existing) planServant
                  in (h2, existing)));
          result' = result\<lparr>rq_servants := (rq_servants result)(instanceId \<mapsto> planServantRequirements)\<rparr>;
          enhancementRequirements =
            priv_computeServantEnhancementRequirements gameServant
              (enhancements_at h' (pc_current planServantRequirements)) currentCostumes
              (enhancements_at h' (pc_target planServantRequirements)) (Some targetCostumes)
              (Some options)
      in (h', result', Some (planServantRequirements, enhancementRequirements)))"

definition accumulate_requirements_st ::
  "plan_refs \<Rightarrow> bool \<Rightarrow> nat \<Rightarrow> plan_servant_cell \<Rightarrow> enhancement_requirements
    \<Rightarrow> plan_requirements_cell \<Rightarrow> plan_requirements_cell" where
  "accumulate_requirements_st plan isTargetPlan instanceId planServantRequirements
      enhancementRequirements result =
     (let result1 =
            (if isTargetPlan
             then (let planServantRequirements' =
                         planServantRequirements\<lparr>pc_requirements :=
                           addEnhancementRequirements (pc_requirements planServantRequirements)
                             enhancementRequirements\<rparr>
                   in result\<lparr>rq_servants :=
                               (rq_servants result)(instanceId \<mapsto> planServantRequirements'),
                             rq_targetPlan :=
                               addEnhancementRequirements (rq_targetPlan result)
                                 enhancementRequirements\<rparr>)
             else (case getOrDefault (rq_previousPlans result) (pf_id plan)
                          priv_instantiateEnhancementRequirements of
                     (planEnhancementRequirements, previousPlans) \<Rightarrow>
                       result\<lparr>rq_previousPlans :=
                                fmupd (pf_id plan)
                                  (addEnhancementRequirements planEnhancementRequirements
                                     enhancementRequirements)
                                  previousPlans\<rparr>))
      in result1\<lparr>rq_group := addEnhancementRequirements (rq_group result1) enhancementRequirements\<rparr>)"

definition plan_servant_step_st ::
  "game_servant_map \<Rightarrow> master_account_data_refs \<Rightarrow> plan_refs \<Rightarrow> computation_options \<Rightarrow> bool
    \<Rightarrow> nat set \<Rightarrow> addr \<Rightarrow> store \<times> plan_requirements_cell \<Rightarrow> store \<times> plan_requirements_cell" where
  "plan_servant_step_st gameServantMap masterAccountData plan options isTargetPlan targetCostumes
      planServantRef state =
     (case state of (h, result) \<Rightarrow>
        (case deref h planServantRef of
           Some (PlanServantObj planServant) \<Rightarrow>
             if \<not> en_servant (ps_enabled planServant) then (h, result)
             else (case md_servants masterAccountData (ps_instanceId planServant) of
                     None \<Rightarrow> (h, result)
                   | Some masterServantRef \<Rightarrow>
                       (case deref h masterServantRef of
                          Some (MasterServantObj masterServant) \<Rightarrow>
                            (case gameServantMap (ms_gameId masterServant) of
                               None \<Rightarrow> (h, result)
                             | Some gameServant \<Rightarrow>
                                 (let servantOptions =
                                        priv_parseComputationOptions (ps_enabled planServant);
                                      mergedOptions =
                                        priv_mergeComputationOptions options servantOptions
                                  in case priv_computePlanServantRequirements_st h result gameServant
                                            masterServantRef (ps_instanceId planServant)
                                            planServantRef
                                            (costume_ids h (md_costumes masterAccountData))
                                            targetCostumes mergedOptions of
                                       (h', result', None) \<Rightarrow> (h', result')
                                     | (h', result', Some (planServantRequirements,
                                                           enhancementRequirements)) \<Rightarrow>
                                         (h', accumulate_requirements_st plan isTargetPlan
                                                (ps_instanceId planServant) planServantRequirements
                                                enhancementRequirements result')))
                        | _ \<Rightarrow> (h, result)))
         | _ \<Rightarrow> (h, result)))"

definition priv_computePlanRequirements_st ::
  "store \<times> plan_requirements_cell \<Rightarrow> game_servant_map \<Rightarrow> master_account_data_refs \<Rightarrow> plan_refs
    \<Rightarrow> computation_options \<Rightarrow> bool \<Rightarrow> store \<times> plan_requirements_cell" where
  "priv_computePlanRequirements_st state gameServantMap masterAccountData plan options isTargetPlan =
     (let targetCostumes = set (pf_costumes plan)
      in fold (plan_servant_step_st gameServantMap masterAccountData plan options isTargetPlan
                 targetCostumes)
           (pf_servants plan) state)"

definition computePlanRequirements_st ::
  "store \<Rightarrow> game_servant_map \<Rightarrow> master_account_refs \<Rightarrow> plan_refs \<Rightarrow> plan_refs list option
    \<Rightarrow> computation_options option \<Rightarrow> store \<times> plan_requirements_cell" where
  "computePlanRequirements_st h gameServantMap masterAccount targetPlan previousPlans optionsOverride =
     (let result = priv_instantiatePlanRequirements_st;
          (h1, masterAccountData) = priv_preProcessMasterAccount_st h masterAccount;
          options =
            (case optionsOverride of
               Some override \<Rightarrow> override
             | None \<Rightarrow> priv_parseComputationOptions (pf_enabled targetPlan));
          state =
            (case previousPlans of
               None \<Rightarrow> (h1, result)
             | Some plans \<Rightarrow>
                 fold (\<lambda>plan state.
                         priv_computePlanRequirements_st state gameServantMap masterAccountData plan
                           options False)
                   plans (h1, result))
      in priv_computePlanRequirements_st state gameServantMap masterAccountData targetPlan
           options True)"

definition computeServantEnhancementRequirements_st ::
  "store \<Rightarrow> game_servant \<Rightarrow> addr \<Rightarrow> addr \<Rightarrow> computation_options option
    \<Rightarrow> store \<times> enhancement_requirements" where
  "computeServantEnhancementRequirements_st h gameServant currentEnhancements currentCostumes options =
     (let (h', currentCostumeSet) = allocate h (CostumeSetObj (costume_ids h currentCostumes))
      in (h',
          priv_computeServantEnhancementRequirements gameServant
            (enhancements_at h' currentEnhancements) (costume_ids h' currentCostumeSet)
            priv_defaultTargetEnhancements None options))"


subsection \<open>Addition of requirement records on the store\<close>

text \<open>
  A requirement record refers to the entries of its materials. \<open>addEnhancementRequirements\<close>
  gives the target a new copy of an entry it lacks (\<open>{ ...value }\<close>) and adds to an entry
  it has.
\<close>

definition item_requirements_at :: "store \<Rightarrow> addr \<Rightarrow> item_requirements" where
  "item_requirements_at h a =
     (case deref h a of
        Some (ItemRequirementsObj itemCount) \<Rightarrow> itemCount
      | _ \<Rightarrow> priv_instantiateEnhancementItemRequirements)"

definition add_item_entry_st ::
  "nat \<times> addr \<Rightarrow> store \<times> (nat, addr) fmap \<Rightarrow> store \<times> (nat, addr) fmap" where
  "add_item_entry_st entry state =
     (case entry of (itemId, val) \<Rightarrow>
        (case state of (h, targetItems) \<Rightarrow>
           (case fmlookup targetItems itemId of
              None \<Rightarrow>
                (case allocate h (ItemRequirementsObj (item_requirements_at h val)) of
                   (h', copy) \<Rightarrow> (h', fmupd itemId copy targetItems))
            | Some targetEntry \<Rightarrow>
                (assign h targetEntry
                   (ItemRequirementsObj
                      (priv_addEnhancementItemRequirements (item_requirements_at h targetEntry)
                         (item_requirements_at h val))),
                 targetItems))))"

definition addEnhancementRequirements_st :: "store \<Rightarrow> addr \<Rightarrow> addr \<Rightarrow> store" where
  "addEnhancementRequirements_st h target source =
     (case deref h target of
        Some (RequirementsObj t) \<Rightarrow>
          (case deref h source of
             Some (RequirementsObj s) \<Rightarrow>
               (case fold add_item_entry_st (object_entries (rc_items s)) (h, rc_items t) of
                  (h', targetItems) \<Rightarrow>
                    assign h' target
                      (RequirementsObj
                         \<lparr>rc_embers = add_embers (rc_embers t) (rc_embers s),
                          rc_items = targetItems,
                          rc_qp = rc_qp t + rc_qp s\<rparr>))
           | _ \<Rightarrow> h)
      | _ \<Rightarrow> h)"

definition entries_of :: "store \<Rightarrow> addr \<Rightarrow> addr set" where
  "entries_of h a =
     (case deref h a of
        Some (RequirementsObj cell) \<Rightarrow> fmran' (rc_items cell)
      | _ \<Rightarrow> {})"

text \<open>
  For the proofs: the states of every entry of a result lie at or above an address, and a
  store keeps what another had below an address.
\<close>

definition owned :: "nat \<Rightarrow> plan_requirements_cell \<Rightarrow> bool" where
  "owned n result =
     (\<forall>i c. rq_servants result i = Some c \<longrightarrow> n \<le> pc_current c \<and> n \<le> pc_target c)"

definition kept :: "nat \<Rightarrow> store \<Rightarrow> store \<Rightarrow> bool" where
  "kept n h h' = (take n h' = take n h \<and> length h \<le> length h')"

subsection \<open>A small store\<close>

text \<open>
  The inventory, the costume array, the servant of the account and two directives (to
  ascension 2 and to ascension 4); and a store with two requirement records, the target
  at address 0 with one entry and the source at address 2 with two.
\<close>

definition ex_store :: store where
  "ex_store =
     [ItemsObj (fmupd 7 5 fmempty),
      CostumeArrayObj [12],
      MasterServantObj
        \<lparr>se_ascension = Some 0, se_skills = ex_levels 1, se_appendSkills = ex_none,
         ms_instanceId = 1, ms_gameId = 100\<rparr>,
      PlanServantObj (ex_directive 1 2 1 (ex_enabled True)),
      PlanServantObj (ex_directive 1 4 1 (ex_enabled True))]"

definition ex_account_refs :: master_account_refs where
  "ex_account_refs = \<lparr>mr_servants = [2], mr_items = 0, mr_qp = 0, mr_costumes = 1\<rparr>"

definition ex_plan_refs :: "string \<Rightarrow> addr list \<Rightarrow> plan_refs" where
  "ex_plan_refs name directives =
     \<lparr>pf_id = name,
      pf_enabled =
        \<lparr>en_ascensions = True, en_skills = True, en_appendSkills = True, en_costumes = True\<rparr>,
      pf_servants = directives,
      pf_costumes = [11]\<rparr>"

definition ex_requirements_store :: store where
  "ex_requirements_store =
     [RequirementsObj
        \<lparr>rc_embers = \<lparr>em_1 = 0, em_2 = 0, em_3 = 0, em_4 = 0, em_5 = 0\<rparr>,
         rc_items = fmupd 7 1 fmempty, rc_qp = 10\<rparr>,
      ItemRequirementsObj
        \<lparr>ir_ascensions = 1, ir_skills = 0, ir_appendSkills = 0, ir_costumes = 0, ir_total = 1\<rparr>,
      RequirementsObj
        \<lparr>rc_embers = \<lparr>em_1 = 0, em_2 = 0, em_3 = 0, em_4 = 0, em_5 = 0\<rparr>,
         rc_items = fmupd 7 3 (fmupd 8 4 fmempty), rc_qp = 5\<rparr>,
      ItemRequirementsObj
        \<lparr>ir_ascensions = 0, ir_skills = 2, ir_appendSkills = 0, ir_costumes = 0, ir_total = 2\<rparr>,
      ItemRequirementsObj
        \<lparr>ir_ascensions = 0, ir_skills = 0, ir_appendSkills = 0, ir_costumes = 6, ir_total = 6\<rparr>]"

section \<open>Properties\<close>

subsection \<open>Entries of an object\<close>


lemma object_entries_keys: "map fst (object_entries m) = sorted_list_of_fset (fmdom m)"
proof -
  have "\<And>ks. set ks \<subseteq> fmdom' m \<Longrightarrow>
     map fst (List.map_filter (\<lambda>k. map_option (Pair k) (fmlookup m k)) ks) = ks"
  proof -
    fix ks show "set ks \<subseteq> fmdom' m \<Longrightarrow>
     map fst (List.map_filter (\<lambda>k. map_option (Pair k) (fmlookup m k)) ks) = ks"
      by (induction ks) (auto simp: fmlookup_dom'_iff)
  qed
  then show ?thesis
    by (simp add: object_entries_def fmdom'_alt_def)
qed

lemma distinct_sorted_list_of_fset: "distinct (sorted_list_of_fset S)"
  by (simp add: sorted_list_of_fset.rep_eq)

lemma sorted_list_of_fset_empty: "sorted_list_of_fset {||} = []"
  by (simp add: sorted_list_of_fset.rep_eq)


lemma object_entries_distinct: "distinct (map fst (object_entries m))"
  by (simp add: object_entries_keys distinct_sorted_list_of_fset)

lemma map_of_object_entries: "map_of (object_entries m) k = fmlookup m k"
proof -
  have "\<And>ks. map_of (List.map_filter (\<lambda>k. map_option (Pair k) (fmlookup m k)) ks) k
      = (if k \<in> set ks then fmlookup m k else None)"
  proof -
    fix ks show "map_of (List.map_filter (\<lambda>k. map_option (Pair k) (fmlookup m k)) ks) k
      = (if k \<in> set ks then fmlookup m k else None)"
      by (induction ks) (auto simp: split: option.splits)
  qed
  then show ?thesis
    by (auto simp: object_entries_def fmlookup_dom_iff)
qed

lemma object_entries_empty: "object_entries fmempty = []"
  by (simp add: object_entries_def sorted_list_of_fset_empty)

lemma fold_add_item_entry:
  "distinct (map fst es) \<Longrightarrow>
   fmlookup (fold add_item_entry es t) k =
     (case map_of es k of
        None \<Rightarrow> fmlookup t k
      | Some v \<Rightarrow> (case fmlookup t k of
                    None \<Rightarrow> Some v
                  | Some a \<Rightarrow> Some (priv_addEnhancementItemRequirements a v)))"
proof (induction es arbitrary: t)
  case Nil
  then show ?case by simp
next
  case (Cons e es)
  obtain i v where e: "e = (i, v)" by (cases e)
  from Cons.prems have d: "distinct (map fst es)" and ni: "i \<notin> fst ` set es"
    by (auto simp: e)
  from ni have mo: "map_of es i = None" by (simp add: map_of_eq_None_iff)
  show ?case
    using Cons.IH [OF d, of "add_item_entry e t"] mo
    by (auto simp: e add_item_entry_def split: option.splits)
qed

subsection \<open>Addition of requirement records\<close>


lemma lookup_addEnhancementRequirements:
  "fmlookup (er_items (addEnhancementRequirements t s)) k =
     (case fmlookup (er_items s) k of
        None \<Rightarrow> fmlookup (er_items t) k
      | Some v \<Rightarrow> (case fmlookup (er_items t) k of
                    None \<Rightarrow> Some v
                  | Some a \<Rightarrow> Some (priv_addEnhancementItemRequirements a v)))"
  by (simp add: addEnhancementRequirements_def fold_add_item_entry object_entries_distinct
      map_of_object_entries)

lemma priv_addEnhancementItemRequirements_commute:
  "priv_addEnhancementItemRequirements a b = priv_addEnhancementItemRequirements b a"
  by (simp add: priv_addEnhancementItemRequirements_def)

lemma priv_addEnhancementItemRequirements_assoc:
  "priv_addEnhancementItemRequirements (priv_addEnhancementItemRequirements a b) c =
   priv_addEnhancementItemRequirements a (priv_addEnhancementItemRequirements b c)"
  by (simp add: priv_addEnhancementItemRequirements_def)

lemma add_embers_commute: "add_embers a b = add_embers b a"
  by (simp add: add_embers_def)

lemma add_embers_assoc: "add_embers (add_embers a b) c = add_embers a (add_embers b c)"
  by (simp add: add_embers_def)

lemma enhancement_requirements_eqI:
  fixes x y :: enhancement_requirements
  assumes "er_embers x = er_embers y" "\<And>k. fmlookup (er_items x) k = fmlookup (er_items y) k"
    "er_qp x = er_qp y"
  shows "x = y"
proof -
  have "er_items x = er_items y" by (rule fmap_ext) (rule assms(2))
  with assms(1,3) show ?thesis by simp
qed

lemma addEnhancementRequirements_commute:
  "addEnhancementRequirements a b = addEnhancementRequirements b a"
proof (rule enhancement_requirements_eqI)
  show "er_embers (addEnhancementRequirements a b) = er_embers (addEnhancementRequirements b a)"
    by (simp add: addEnhancementRequirements_def add_embers_commute)
  show "er_qp (addEnhancementRequirements a b) = er_qp (addEnhancementRequirements b a)"
    by (simp add: addEnhancementRequirements_def)
  fix k
  show "fmlookup (er_items (addEnhancementRequirements a b)) k =
        fmlookup (er_items (addEnhancementRequirements b a)) k"
    by (simp add: lookup_addEnhancementRequirements priv_addEnhancementItemRequirements_commute
        split: option.splits)
qed

lemma addEnhancementRequirements_assoc:
  "addEnhancementRequirements (addEnhancementRequirements a b) c =
   addEnhancementRequirements a (addEnhancementRequirements b c)"
proof (rule enhancement_requirements_eqI)
  show "er_embers (addEnhancementRequirements (addEnhancementRequirements a b) c) =
        er_embers (addEnhancementRequirements a (addEnhancementRequirements b c))"
    by (simp add: addEnhancementRequirements_def add_embers_assoc)
  show "er_qp (addEnhancementRequirements (addEnhancementRequirements a b) c) =
        er_qp (addEnhancementRequirements a (addEnhancementRequirements b c))"
    by (simp add: addEnhancementRequirements_def)
  fix k
  show "fmlookup (er_items (addEnhancementRequirements (addEnhancementRequirements a b) c)) k =
        fmlookup (er_items (addEnhancementRequirements a (addEnhancementRequirements b c))) k"
    by (simp add: lookup_addEnhancementRequirements priv_addEnhancementItemRequirements_assoc
        split: option.splits)
qed

lemma addEnhancementRequirements_zero_right:
  "addEnhancementRequirements x priv_instantiateEnhancementRequirements = x"
  by (simp add: addEnhancementRequirements_def priv_instantiateEnhancementRequirements_def
      object_entries_empty add_embers_def)

lemma addEnhancementRequirements_zero_left:
  "addEnhancementRequirements priv_instantiateEnhancementRequirements x = x"
  using addEnhancementRequirements_commute [of priv_instantiateEnhancementRequirements x]
  by (simp add: addEnhancementRequirements_zero_right)

text \<open>
  Claim C3. Requirement records with \<open>addEnhancementRequirements\<close> form a commutative
  monoid: adding \<open>B\<close> to \<open>A\<close> gives the same record as adding \<open>A\<close> to \<open>B\<close>; the addition
  is associative, and the sum of \<open>[A, B, C]\<close> is \<open>A\<close> plus \<open>B\<close> plus \<open>C\<close>; the sum of the
  empty array is the record whose counters are all zero, whose material mapping is empty
  and whose QP is zero; and adding that record to \<open>X\<close> leaves \<open>X\<close> as it is.
\<close>

theorem requirement_records_commutative_monoid:
  "addEnhancementRequirements A B = addEnhancementRequirements B A
   \<and> addEnhancementRequirements (addEnhancementRequirements A B) C =
       addEnhancementRequirements A (addEnhancementRequirements B C)
   \<and> sumEnhancementRequirements [A, B, C] =
       addEnhancementRequirements (addEnhancementRequirements A B) C
   \<and> sumEnhancementRequirements [] =
       \<lparr>er_embers = \<lparr>em_1 = 0, em_2 = 0, em_3 = 0, em_4 = 0, em_5 = 0\<rparr>,
        er_items = fmempty, er_qp = 0\<rparr>
   \<and> addEnhancementRequirements X (sumEnhancementRequirements []) = X"
proof -
  have z: "sumEnhancementRequirements [] = priv_instantiateEnhancementRequirements"
    by (simp add: sumEnhancementRequirements_def)
  have s: "sumEnhancementRequirements [A, B, C] =
       addEnhancementRequirements (addEnhancementRequirements A B) C"
    by (simp add: sumEnhancementRequirements_def addEnhancementRequirements_zero_left)
  show ?thesis
    using addEnhancementRequirements_commute [of A B] addEnhancementRequirements_assoc [of A B C]
      addEnhancementRequirements_zero_right [of X] s z
    by (simp add: priv_instantiateEnhancementRequirements_def)
qed

subsection \<open>One enhancement step added to a result\<close>

lemma fold_update_item_count:
  "distinct (map fst es) \<Longrightarrow>
   fmlookup (fold (update_item_count key c) es items) k =
     (case map_of es k of
        None \<Rightarrow> fmlookup items k
      | Some q \<Rightarrow>
          (let itemCount = (case fmlookup items k of
                              None \<Rightarrow> priv_instantiateEnhancementItemRequirements
                            | Some ic \<Rightarrow> ic);
               itemCount1 = add_to_property key (q * c) itemCount
           in Some (itemCount1\<lparr>ir_total := ir_total itemCount1 + q * c\<rparr>)))"
proof (induction es arbitrary: items)
  case Nil
  then show ?case by simp
next
  case (Cons e es)
  obtain i q where e: "e = (i, q)" by (cases e)
  from Cons.prems have d: "distinct (map fst es)" and ni: "i \<notin> fst ` set es"
    by (auto simp: e)
  from ni have mo: "map_of es i = None" by (simp add: map_of_eq_None_iff)
  show ?case
    using Cons.IH [OF d, of "update_item_count key c e items"] mo
    by (auto simp: e update_item_count_def getOrDefault_def Let_def split: option.splits)
qed

lemma lookup_priv_updateEnhancementRequirementResult:
  "fmlookup (er_items (priv_updateEnhancementRequirementResult r e key c)) k =
     (case fmlookup (ge_materials e) k of
        None \<Rightarrow> fmlookup (er_items r) k
      | Some q \<Rightarrow>
          (let itemCount = (case fmlookup (er_items r) k of
                              None \<Rightarrow> priv_instantiateEnhancementItemRequirements
                            | Some ic \<Rightarrow> ic);
               itemCount1 = add_to_property key (q * c) itemCount
           in Some (itemCount1\<lparr>ir_total := ir_total itemCount1 + q * c\<rparr>)))"
  by (simp add: priv_updateEnhancementRequirementResult_def fold_update_item_count
      object_entries_distinct map_of_object_entries)

lemma property_of_add_to_property:
  "property_of key' (add_to_property key n ic) =
     property_of key' ic + (if key' = key then n else 0)"
  by (cases key; cases key') simp_all

lemma property_of_total_update:
  "property_of key' (ic\<lparr>ir_total := t\<rparr>) = (if key' = Total then t else property_of key' ic)"
  by (cases key') simp_all

lemma property_of_zero: "property_of key priv_instantiateEnhancementItemRequirements = 0"
  by (cases key) (simp_all add: priv_instantiateEnhancementItemRequirements_def)

lemma ir_total_zero: "ir_total priv_instantiateEnhancementItemRequirements = 0"
  by (simp add: priv_instantiateEnhancementItemRequirements_def)

lemma ir_total_add_to_property:
  "ir_total (add_to_property key n ic) = ir_total ic + (if key = Total then n else 0)"
  by (cases key) simp_all

lemma required_priv_updateEnhancementRequirementResult:
  "required key' (priv_updateEnhancementRequirementResult r e key c) k =
     required key' r k
       + (if key' = key then quantity e k * c else 0)
       + (if key' = Total then quantity e k * c else 0)"
  by (auto simp: required_def quantity_def lookup_priv_updateEnhancementRequirementResult Let_def
      property_of_add_to_property property_of_total_update property_of_zero
      ir_total_add_to_property ir_total_zero
      split: option.splits)

lemma qp_priv_updateEnhancementRequirementResult:
  "er_qp (priv_updateEnhancementRequirementResult r e key c) = er_qp r + ge_qp e * c"
  by (simp add: priv_updateEnhancementRequirementResult_def)

lemma embers_priv_updateEnhancementRequirementResult:
  "er_embers (priv_updateEnhancementRequirementResult r e key c) = er_embers r"
  by (simp add: priv_updateEnhancementRequirementResult_def)

subsection \<open>The loops of the calculator\<close>

lemma skillUpgradeCount_slots:
  "skillUpgradeCount cur tgt L = int (slots_to_upgrade cur tgt L)"
  by (simp add: skillUpgradeCount_def slots_to_upgrade_def)

lemma required_zero: "required key priv_instantiateEnhancementRequirements k = 0"
  by (simp add: required_def priv_instantiateEnhancementRequirements_def)

lemma qp_zero: "er_qp priv_instantiateEnhancementRequirements = 0"
  by (simp add: priv_instantiateEnhancementRequirements_def)

lemma skill_step_entry:
  "skill_step cur tgt ty ex (L, skill) r =
     (if truthy ex \<and> L = MaxSkillLevel - 1 then r
      else if skillUpgradeCount cur tgt L = 0 then r
      else priv_updateEnhancementRequirementResult r skill ty (skillUpgradeCount cur tgt L))"
  by (simp add: skill_step_def)

lemma ascension_step_entry:
  "ascension_step ca ta (L, a) r =
     (if or_zero ca < L \<and> L \<le> ta
      then priv_updateEnhancementRequirementResult r a Ascensions 1 else r)"
  by (auto simp: ascension_step_def)

lemma costume_step_entry:
  "costume_step cc tc (i, c) r =
     (if i \<notin> cc \<and> (case tc of None \<Rightarrow> True | Some s \<Rightarrow> i \<in> s)
      then priv_updateEnhancementRequirementResult r (gc_materials c) Costumes 1 else r)"
  by (cases tc) (auto simp: costume_step_def)

lemma required_skill_loop:
  "required key' (fold (skill_step cur tgt ty ex) es r) k =
     required key' r k
     + (if key' = ty then (\<Sum>(L, skill)\<leftarrow>filter (\<lambda>(L, skill). \<not> (truthy ex \<and> L = MaxSkillLevel - 1)) es.
           quantity skill k * skillUpgradeCount cur tgt L) else 0)
     + (if key' = Total then (\<Sum>(L, skill)\<leftarrow>filter (\<lambda>(L, skill). \<not> (truthy ex \<and> L = MaxSkillLevel - 1)) es.
           quantity skill k * skillUpgradeCount cur tgt L) else 0)"
proof (induction es arbitrary: r)
  case Nil
  show ?case by simp
next
  case (Cons e es)
  obtain L skill where e: "e = (L, skill)" by (cases e)
  show ?case
    by (simp add: e Cons.IH skill_step_entry required_priv_updateEnhancementRequirementResult)
qed

lemma qp_skill_loop:
  "er_qp (fold (skill_step cur tgt ty ex) es r) =
     er_qp r + (\<Sum>(L, skill)\<leftarrow>filter (\<lambda>(L, skill). \<not> (truthy ex \<and> L = MaxSkillLevel - 1)) es.
           ge_qp skill * skillUpgradeCount cur tgt L)"
proof (induction es arbitrary: r)
  case Nil
  show ?case by simp
next
  case (Cons e es)
  obtain L skill where e: "e = (L, skill)" by (cases e)
  show ?case
    by (simp add: e Cons.IH skill_step_entry qp_priv_updateEnhancementRequirementResult)
qed

lemma embers_skill_loop:
  "er_embers (fold (skill_step cur tgt ty ex) es r) = er_embers r"
proof (induction es arbitrary: r)
  case Nil
  show ?case by simp
next
  case (Cons e es)
  obtain L skill where e: "e = (L, skill)" by (cases e)
  show ?case
    by (simp add: e Cons.IH skill_step_entry embers_priv_updateEnhancementRequirementResult)
qed

lemma required_priv_updateResultForSkills:
  "required key' (priv_updateResultForSkills r sm cur tgt ty ex) k =
     required key' r k
     + (if key' = ty then (\<Sum>(L, skill)\<leftarrow>skill_levels sm ex. quantity skill k * skillUpgradeCount cur tgt L) else 0)
     + (if key' = Total then (\<Sum>(L, skill)\<leftarrow>skill_levels sm ex. quantity skill k * skillUpgradeCount cur tgt L) else 0)"
  unfolding priv_updateResultForSkills_def skill_levels_def
  by (rule required_skill_loop)

lemma qp_priv_updateResultForSkills:
  "er_qp (priv_updateResultForSkills r sm cur tgt ty ex) =
     er_qp r + (\<Sum>(L, skill)\<leftarrow>skill_levels sm ex. ge_qp skill * skillUpgradeCount cur tgt L)"
  unfolding priv_updateResultForSkills_def skill_levels_def
  by (rule qp_skill_loop)

lemma embers_priv_updateResultForSkills:
  "er_embers (priv_updateResultForSkills r sm cur tgt ty ex) = er_embers r"
  unfolding priv_updateResultForSkills_def
  by (rule embers_skill_loop)

lemma required_ascension_fold:
  "required key' (fold (ascension_step ca ta) es r) k =
     required key' r k
     + (if key' = Ascensions then (\<Sum>(L, a)\<leftarrow>filter (\<lambda>(L, a). or_zero ca < L \<and> L \<le> ta) es. quantity a k) else 0)
     + (if key' = Total then (\<Sum>(L, a)\<leftarrow>filter (\<lambda>(L, a). or_zero ca < L \<and> L \<le> ta) es. quantity a k) else 0)"
proof (induction es arbitrary: r)
  case Nil
  show ?case by simp
next
  case (Cons e es)
  obtain L a where e: "e = (L, a)" by (cases e)
  show ?case
    by (auto simp: e Cons.IH ascension_step_entry required_priv_updateEnhancementRequirementResult)
qed

lemma qp_ascension_fold:
  "er_qp (fold (ascension_step ca ta) es r) =
     er_qp r + (\<Sum>(L, a)\<leftarrow>filter (\<lambda>(L, a). or_zero ca < L \<and> L \<le> ta) es. ge_qp a)"
proof (induction es arbitrary: r)
  case Nil
  show ?case by simp
next
  case (Cons e es)
  obtain L a where e: "e = (L, a)" by (cases e)
  show ?case
    by (auto simp: e Cons.IH ascension_step_entry qp_priv_updateEnhancementRequirementResult)
qed

lemma embers_ascension_fold:
  "er_embers (fold (ascension_step ca ta) es r) = er_embers r"
proof (induction es arbitrary: r)
  case Nil
  show ?case by simp
next
  case (Cons e es)
  obtain L a where e: "e = (L, a)" by (cases e)
  show ?case
    by (simp add: e Cons.IH ascension_step_entry embers_priv_updateEnhancementRequirementResult)
qed

lemma required_costume_fold:
  "required key' (fold (costume_step cc tc) es r) k =
     required key' r k
     + (if key' = Costumes then (\<Sum>(i, c)\<leftarrow>filter (\<lambda>(i, c). i \<notin> cc \<and> (case tc of None \<Rightarrow> True | Some s \<Rightarrow> i \<in> s)) es.
            quantity (gc_materials c) k) else 0)
     + (if key' = Total then (\<Sum>(i, c)\<leftarrow>filter (\<lambda>(i, c). i \<notin> cc \<and> (case tc of None \<Rightarrow> True | Some s \<Rightarrow> i \<in> s)) es.
            quantity (gc_materials c) k) else 0)"
proof (induction es arbitrary: r)
  case Nil
  show ?case by simp
next
  case (Cons e es)
  obtain i c where e: "e = (i, c)" by (cases e)
  show ?case
    by (simp add: e Cons.IH costume_step_entry required_priv_updateEnhancementRequirementResult)
qed

lemma qp_costume_fold:
  "er_qp (fold (costume_step cc tc) es r) =
     er_qp r + (\<Sum>(i, c)\<leftarrow>filter (\<lambda>(i, c). i \<notin> cc \<and> (case tc of None \<Rightarrow> True | Some s \<Rightarrow> i \<in> s)) es.
            ge_qp (gc_materials c))"
proof (induction es arbitrary: r)
  case Nil
  show ?case by simp
next
  case (Cons e es)
  obtain i c where e: "e = (i, c)" by (cases e)
  show ?case
    by (simp add: e Cons.IH costume_step_entry qp_priv_updateEnhancementRequirementResult)
qed

lemma embers_costume_fold:
  "er_embers (fold (costume_step cc tc) es r) = er_embers r"
proof (induction es arbitrary: r)
  case Nil
  show ?case by simp
next
  case (Cons e es)
  obtain i c where e: "e = (i, c)" by (cases e)
  show ?case
    by (simp add: e Cons.IH costume_step_entry embers_priv_updateEnhancementRequirementResult)
qed

subsection \<open>The requirements of a unit, category by category\<close>



lemma required_compute_Ascensions:
  "required Ascensions (priv_computeServantEnhancementRequirements gs cur cc tgt tc oa) k =
     (if truthy (co_includeAscensions (default_parameter oa))
      then (case se_ascension tgt of
              None \<Rightarrow> 0
            | Some ta \<Rightarrow>
                (case gs_ascensionMaterials gs of
                   None \<Rightarrow> 0
                 | Some am \<Rightarrow> (\<Sum>(L, a)\<leftarrow>ascension_levels am (se_ascension cur) ta. quantity a k)))
      else 0)"
  by (simp add: priv_computeServantEnhancementRequirements_def Let_def required_costume_fold
      required_ascension_fold required_priv_updateResultForSkills required_zero
      ascension_levels_def
      split: option.splits)

lemma required_compute_Costumes:
  "required Costumes (priv_computeServantEnhancementRequirements gs cur cc tgt tc oa) k =
     (if truthy (co_includeCostumes (default_parameter oa))
      then (\<Sum>(i, c)\<leftarrow>costumes_to_unlock (gs_costumes gs) cc tc. quantity (gc_materials c) k)
      else 0)"
  by (simp add: priv_computeServantEnhancementRequirements_def Let_def required_costume_fold
      required_ascension_fold required_priv_updateResultForSkills required_zero
      costumes_to_unlock_def
      split: option.splits)

lemma required_compute_Total:
  "required Total (priv_computeServantEnhancementRequirements gs cur cc tgt tc oa) k =
     required Skills (priv_computeServantEnhancementRequirements gs cur cc tgt tc oa) k
     + required AppendSkills (priv_computeServantEnhancementRequirements gs cur cc tgt tc oa) k
     + required Ascensions (priv_computeServantEnhancementRequirements gs cur cc tgt tc oa) k
     + required Costumes (priv_computeServantEnhancementRequirements gs cur cc tgt tc oa) k"
  by (simp add: priv_computeServantEnhancementRequirements_def Let_def required_costume_fold
      required_ascension_fold required_priv_updateResultForSkills required_zero
      split: option.splits)

lemma embers_compute:
  "er_embers (priv_computeServantEnhancementRequirements gs cur cc tgt tc oa) =
     er_embers priv_instantiateEnhancementRequirements"
  by (simp add: priv_computeServantEnhancementRequirements_def Let_def embers_costume_fold
      embers_ascension_fold embers_priv_updateResultForSkills
      split: option.splits)

lemma qp_compute:
  "er_qp (priv_computeServantEnhancementRequirements gs cur cc tgt tc oa) =
     (if truthy (co_includeSkills (default_parameter oa))
      then (\<Sum>(L, skill)\<leftarrow>skill_levels (gs_skillMaterials gs) (co_excludeLores (default_parameter oa)).
              ge_qp skill * skillUpgradeCount (se_skills cur) (se_skills tgt) L)
      else 0)
   + (if truthy (co_includeAppendSkills (default_parameter oa))
      then (\<Sum>(L, skill)\<leftarrow>skill_levels (gs_appendSkillMaterials gs) (co_excludeLores (default_parameter oa)).
              ge_qp skill * skillUpgradeCount (se_appendSkills cur) (se_appendSkills tgt) L)
      else 0)
   + (if truthy (co_includeAscensions (default_parameter oa))
      then (case se_ascension tgt of
              None \<Rightarrow> 0
            | Some ta \<Rightarrow>
                (case gs_ascensionMaterials gs of
                   None \<Rightarrow> 0
                 | Some am \<Rightarrow> (\<Sum>(L, a)\<leftarrow>ascension_levels am (se_ascension cur) ta. ge_qp a)))
      else 0)
   + (if truthy (co_includeCostumes (default_parameter oa))
      then (\<Sum>(i, c)\<leftarrow>costumes_to_unlock (gs_costumes gs) cc tc. ge_qp (gc_materials c))
      else 0)"
  by (simp add: priv_computeServantEnhancementRequirements_def Let_def qp_costume_fold
      qp_ascension_fold qp_priv_updateResultForSkills qp_zero
      ascension_levels_def costumes_to_unlock_def
      split: option.splits)

subsection \<open>Skill upgrades and costumes\<close>


text \<open>
  Claim C4. Skill upgrade counting: for a skill level of the catalog, the upgrade count is
  the number of the three slots whose current level is at most the level and whose
  target level is above it, a slot without an entry counting as level 0. For skills and
  for append skills alike, \<open>_updateResultForSkills\<close> adds, for every level of the catalog
  it looks at, the material quantities and the QP of the level multiplied by this count
  to the subtotal of the skill type, to the total and to the QP of the result. With
  current levels (3, 5, 7) and targets (10, 10, 10) the count at level 6 is 2.
\<close>

theorem skill_upgrade_counting:
  "skillType = Skills \<or> skillType = AppendSkills \<Longrightarrow>
   skillUpgradeCount currentSkills targetSkills skillLevel =
     int (slots_to_upgrade currentSkills targetSkills skillLevel)
   \<and> required skillType
       (priv_updateResultForSkills result skillMaterials currentSkills targetSkills skillType
          excludeLores) itemId =
     required skillType result itemId
     + (\<Sum>(level, skill)\<leftarrow>skill_levels skillMaterials excludeLores.
          quantity skill itemId * int (slots_to_upgrade currentSkills targetSkills level))
   \<and> required Total
       (priv_updateResultForSkills result skillMaterials currentSkills targetSkills skillType
          excludeLores) itemId =
     required Total result itemId
     + (\<Sum>(level, skill)\<leftarrow>skill_levels skillMaterials excludeLores.
          quantity skill itemId * int (slots_to_upgrade currentSkills targetSkills level))
   \<and> er_qp
       (priv_updateResultForSkills result skillMaterials currentSkills targetSkills skillType
          excludeLores) =
     er_qp result
     + (\<Sum>(level, skill)\<leftarrow>skill_levels skillMaterials excludeLores.
          ge_qp skill * int (slots_to_upgrade currentSkills targetSkills level))
   \<and> skillUpgradeCount \<lparr>sk_1 = Some 3, sk_2 = Some 5, sk_3 = Some 7\<rparr>
         \<lparr>sk_1 = Some 10, sk_2 = Some 10, sk_3 = Some 10\<rparr> 6 = 2"
proof -
  assume ty: "skillType = Skills \<or> skillType = AppendSkills"
  then have nt: "skillType \<noteq> Total" by auto
  have ex: "skillUpgradeCount \<lparr>sk_1 = Some 3, sk_2 = Some 5, sk_3 = Some 7\<rparr>
         \<lparr>sk_1 = Some 10, sk_2 = Some 10, sk_3 = Some 10\<rparr> 6 = 2"
    by (simp add: skillUpgradeCount_def or_zero_def)
  show ?thesis
    using nt ex
    by (simp add: required_priv_updateResultForSkills qp_priv_updateResultForSkills
        skillUpgradeCount_slots)
qed

text \<open>
  The scenario of the specification: three skills from level 1 to level 2, where the step
  costs 3 of the material 7 and 100 QP, need 9 of the material and 300 QP.
\<close>

theorem skill_upgrade_counting_witness:
  "(Skills = Skills \<or> Skills = AppendSkills)
   \<and> required Skills
       (priv_updateResultForSkills priv_instantiateEnhancementRequirements
          (gs_skillMaterials ex_unit) (ex_levels 1) (ex_levels 2) Skills None) 7 = 9
   \<and> er_qp
       (priv_updateResultForSkills priv_instantiateEnhancementRequirements
          (gs_skillMaterials ex_unit) (ex_levels 1) (ex_levels 2) Skills None) = 300"
proof -
  have h: "Skills = Skills \<or> Skills = AppendSkills" by simp
  have a: "required Skills priv_instantiateEnhancementRequirements 7
     + (\<Sum>(level, skill)\<leftarrow>skill_levels (gs_skillMaterials ex_unit) None.
          quantity skill 7 * int (slots_to_upgrade (ex_levels 1) (ex_levels 2) level)) = 9"
    by code_simp
  have b: "er_qp priv_instantiateEnhancementRequirements
     + (\<Sum>(level, skill)\<leftarrow>skill_levels (gs_skillMaterials ex_unit) None.
          ge_qp skill * int (slots_to_upgrade (ex_levels 1) (ex_levels 2) level)) = 300"
    by code_simp
  from skill_upgrade_counting [OF h, of "ex_levels 1" "ex_levels 2" _
      priv_instantiateEnhancementRequirements "gs_skillMaterials ex_unit" None 7] a b
  show ?thesis by simp
qed

text \<open>
  Claim C5. Costume contribution condition: a costume of the catalog adds its cost exactly
  when it is not among the current costumes and is targeted, where every costume is
  targeted when the target set is undefined; a costume that is among the current
  costumes adds nothing, whatever the target set. Hence the costume subtotal of the
  requirements of a unit is the sum over the costumes that satisfy the condition (when
  costumes are included at all), and so is the QP the costume loop adds.
\<close>

theorem costume_contribution_condition:
  "costume_step currentCostumes targetCostumes (costumeId, costume) result =
     (if costumeId \<notin> currentCostumes
         \<and> (case targetCostumes of None \<Rightarrow> True | Some tc \<Rightarrow> costumeId \<in> tc)
      then priv_updateEnhancementRequirementResult result (gc_materials costume) Costumes 1
      else result)
   \<and> costume_step (insert costumeId currentCostumes) targetCostumes (costumeId, costume) result
       = result
   \<and> required Costumes
       (priv_computeServantEnhancementRequirements gameServant currentEnhancements currentCostumes
          targetEnhancements targetCostumes options) itemId =
     (if truthy (co_includeCostumes (default_parameter options))
      then (\<Sum>(costumeId, costume)\<leftarrow>
               costumes_to_unlock (gs_costumes gameServant) currentCostumes targetCostumes.
             quantity (gc_materials costume) itemId)
      else 0)
   \<and> er_qp (fold (costume_step currentCostumes targetCostumes)
              (object_entries (gs_costumes gameServant)) result) =
     er_qp result
     + (\<Sum>(costumeId, costume)\<leftarrow>
          costumes_to_unlock (gs_costumes gameServant) currentCostumes targetCostumes.
        ge_qp (gc_materials costume))"
  by (simp add: costume_step_entry required_compute_Costumes qp_costume_fold
      costumes_to_unlock_def)

text \<open>
  The costume 11 of the example unit costs 5 of the material 7: it is counted when it is
  targeted by name or by an undefined target set, and not when another costume is
  targeted or when it is unlocked already.
\<close>

theorem costume_contribution_condition_witness:
  "required Costumes
     (priv_computeServantEnhancementRequirements ex_unit instantiateEnhancements {}
        instantiateEnhancements (Some {11}) None) 7 = 5
   \<and> required Costumes
     (priv_computeServantEnhancementRequirements ex_unit instantiateEnhancements {}
        instantiateEnhancements None None) 7 = 5
   \<and> required Costumes
     (priv_computeServantEnhancementRequirements ex_unit instantiateEnhancements {}
        instantiateEnhancements (Some {12}) None) 7 = 0
   \<and> required Costumes
     (priv_computeServantEnhancementRequirements ex_unit instantiateEnhancements {11}
        instantiateEnhancements (Some {11}) None) 7 = 0
   \<and> required Costumes
     (priv_computeServantEnhancementRequirements ex_unit instantiateEnhancements {11}
        instantiateEnhancements None None) 7 = 0"
proof -
  have v: "(\<Sum>(costumeId, costume)\<leftarrow>costumes_to_unlock (gs_costumes ex_unit) {} (Some {11}).
             quantity (gc_materials costume) 7) = 5"
    "(\<Sum>(costumeId, costume)\<leftarrow>costumes_to_unlock (gs_costumes ex_unit) {} None.
             quantity (gc_materials costume) 7) = 5"
    "(\<Sum>(costumeId, costume)\<leftarrow>costumes_to_unlock (gs_costumes ex_unit) {} (Some {12}).
             quantity (gc_materials costume) 7) = 0"
    "(\<Sum>(costumeId, costume)\<leftarrow>costumes_to_unlock (gs_costumes ex_unit) {11} (Some {11}).
             quantity (gc_materials costume) 7) = 0"
    "(\<Sum>(costumeId, costume)\<leftarrow>costumes_to_unlock (gs_costumes ex_unit) {11} None.
             quantity (gc_materials costume) 7) = 0"
    by code_simp+
  have t: "truthy (co_includeCostumes (default_parameter None))"
    by code_simp
  show ?thesis
    using costume_contribution_condition [of "{}" "Some {11}" _ _ _ ex_unit instantiateEnhancements
        instantiateEnhancements None 7]
      costume_contribution_condition [of "{}" None _ _ _ ex_unit instantiateEnhancements
        instantiateEnhancements None 7]
      costume_contribution_condition [of "{}" "Some {12}" _ _ _ ex_unit instantiateEnhancements
        instantiateEnhancements None 7]
      costume_contribution_condition [of "{11}" "Some {11}" _ _ _ ex_unit instantiateEnhancements
        instantiateEnhancements None 7]
      costume_contribution_condition [of "{11}" None _ _ _ ex_unit instantiateEnhancements
        instantiateEnhancements None 7]
      v t
    by simp
qed

subsection \<open>One directive of a plan\<close>

lemma updateEnhancements_clone:
  fixes t :: servant_enhancements
  shows "updateEnhancements t s = cloneEnhancements s"
  by (simp add: updateEnhancements_def cloneEnhancements_def)

lemma cloneEnhancements_id:
  fixes s :: servant_enhancements
  shows "cloneEnhancements s = s"
  by (simp add: cloneEnhancements_def)

lemma cloneEnhancements_fields:
  "se_ascension (cloneEnhancements s) = se_ascension s"
  "se_skills (cloneEnhancements s) = se_skills s"
  "se_appendSkills (cloneEnhancements s) = se_appendSkills s"
  by (simp_all add: cloneEnhancements_def)

lemma priv_computePlanServantRequirements_eq:
  "priv_computePlanServantRequirements r gs ms d cc tc opts =
     (r\<lparr>pr_servants := (pr_servants r)(ps_instanceId d \<mapsto> entry_after r ms d)\<rparr>,
      Some (entry_after r ms d,
            priv_computeServantEnhancementRequirements gs (psr_current (entry_after r ms d)) cc
              (psr_target (entry_after r ms d)) (Some tc) (Some opts)))"
  by (simp add: priv_computePlanServantRequirements_def Let_def entry_after_def
      priv_instantiatePlanServantRequirements_def updateEnhancements_clone
      cloneEnhancements_id
      split: option.splits)

lemma entry_after_current:
  "psr_current (entry_after r ms d) =
     (case pr_servants r (ps_instanceId d) of
        None \<Rightarrow> cloneEnhancements ms | Some e \<Rightarrow> psr_target e)"
  by (simp add: entry_after_def split: option.splits)

lemma entry_after_target: "psr_target (entry_after r ms d) = cloneEnhancements d"
  by (simp add: entry_after_def split: option.splits)

lemma plan_servant_step_unresolved:
  "resolve_directive gsm mad d = None \<Longrightarrow> plan_servant_step gsm mad p opts isT tc d r = r"
  by (auto simp: resolve_directive_def plan_servant_step_def split: option.splits if_splits)

lemma plan_servant_step_resolved:
  assumes "resolve_directive gsm mad d = Some (ms, gs)"
  shows "plan_servant_step gsm mad p opts isT tc d r =
     accumulate_requirements p isT (ps_instanceId d) (entry_after r ms d)
       (step_cost mad (step_of r opts tc ms gs d))
       (r\<lparr>pr_servants := (pr_servants r)(ps_instanceId d \<mapsto> entry_after r ms d)\<rparr>)"
proof -
  from assms have en: "en_servant (ps_enabled d)"
    and ms: "mad_servants mad (ps_instanceId d) = Some ms"
    and gs: "gsm (ms_gameId ms) = Some gs"
    by (auto simp: resolve_directive_def split: option.splits if_splits)
  have cur: "psr_current (entry_after r ms d) = cs_current (step_of r opts tc ms gs d)"
    by (simp add: entry_after_current step_of_def recorded_def split: option.splits)
  show ?thesis
    using en ms gs
    by (simp add: plan_servant_step_def Let_def priv_computePlanServantRequirements_eq
        step_cost_def cur entry_after_target)
      (simp add: step_of_def)
qed

subsection \<open>The walk over the directives of a plan\<close>

lemma recorded_accumulate:
  "recorded (accumulate_requirements p isT i psr req r) =
     (if isT then (recorded r)(i \<mapsto> psr_target psr) else recorded r)"
  by (auto simp: accumulate_requirements_def recorded_def Let_def fun_eq_iff getOrDefault_def
      split: option.splits)

lemma group_accumulate:
  "pr_group (accumulate_requirements p isT i psr req r) =
     addEnhancementRequirements (pr_group r) req"
  by (simp add: accumulate_requirements_def Let_def getOrDefault_def split: option.splits)

lemma targetPlan_accumulate:
  "pr_targetPlan (accumulate_requirements p isT i psr req r) =
     (if isT then addEnhancementRequirements (pr_targetPlan r) req else pr_targetPlan r)"
  by (simp add: accumulate_requirements_def Let_def getOrDefault_def split: option.splits)

lemma previousPlans_accumulate:
  "pr_previousPlans (accumulate_requirements p isT i psr req r) =
     (if isT then pr_previousPlans r
      else fmupd (pl_id p)
             (addEnhancementRequirements
                (case fmlookup (pr_previousPlans r) (pl_id p) of
                   None \<Rightarrow> priv_instantiateEnhancementRequirements | Some b \<Rightarrow> b) req)
             (pr_previousPlans r))"
  by (simp add: accumulate_requirements_def Let_def getOrDefault_def split: option.splits)

lemma itemDebt_accumulate:
  "pr_itemDebt (accumulate_requirements p isT i psr req r) = pr_itemDebt r"
  by (simp add: accumulate_requirements_def Let_def getOrDefault_def split: option.splits)

lemma recorded_servants_update:
  "recorded (r\<lparr>pr_servants := (pr_servants r)(i \<mapsto> e)\<rparr>) = (recorded r)(i \<mapsto> psr_target e)"
  by (auto simp: recorded_def fun_eq_iff)

lemma recorded_step_resolved:
  assumes "resolve_directive gsm mad d = Some (ms, gs)"
  shows "recorded (plan_servant_step gsm mad p opts isT tc d r) =
     (recorded r)(ps_instanceId d \<mapsto> cloneEnhancements d)"
  by (simp add: plan_servant_step_resolved [OF assms] recorded_accumulate
      recorded_servants_update entry_after_target)

lemma chain_steps_resolved:
  assumes "resolve_directive gsm mad d = Some (ms, gs)"
  shows "chain_steps gsm mad opts tc (recorded r) (d # ds) =
    (step_of r opts tc ms gs d
       # fst (chain_steps gsm mad opts tc ((recorded r)(ps_instanceId d \<mapsto> cloneEnhancements d)) ds),
     snd (chain_steps gsm mad opts tc ((recorded r)(ps_instanceId d \<mapsto> cloneEnhancements d)) ds))"
  using assms by (simp add: step_of_def Let_def)

lemma chain_steps_unresolved:
  assumes "resolve_directive gsm mad d = None"
  shows "chain_steps gsm mad opts tc rec (d # ds) = chain_steps gsm mad opts tc rec ds"
  using assms by simp

lemma walk_recorded:
  "recorded (fold (plan_servant_step gsm mad p opts isT tc) ds r) =
     snd (chain_steps gsm mad opts tc (recorded r) ds)"
proof (induction ds arbitrary: r)
  case Nil
  show ?case by simp
next
  case (Cons d ds)
  show ?case
  proof (cases "resolve_directive gsm mad d")
    case None
    then show ?thesis
      by (simp only: fold_simps chain_steps_unresolved [OF None] plan_servant_step_unresolved [OF None]
          Cons.IH)
  next
    case (Some a)
    obtain ms gs where a: "a = (ms, gs)" by (cases a)
    with Some have res: "resolve_directive gsm mad d = Some (ms, gs)" by simp
    show ?thesis
      by (simp only: fold_simps chain_steps_resolved [OF res] Cons.IH
          recorded_step_resolved [OF res] snd_conv)
  qed
qed

lemma group_step_resolved:
  assumes "resolve_directive gsm mad d = Some (ms, gs)"
  shows "pr_group (plan_servant_step gsm mad p opts isT tc d r) =
     addEnhancementRequirements (pr_group r) (step_cost mad (step_of r opts tc ms gs d))"
  by (simp add: plan_servant_step_resolved [OF assms] group_accumulate)

lemma walk_group:
  "pr_group (fold (plan_servant_step gsm mad p opts isT tc) ds r) =
     fold (\<lambda>c acc. addEnhancementRequirements acc c)
       (map (step_cost mad) (fst (chain_steps gsm mad opts tc (recorded r) ds))) (pr_group r)"
proof (induction ds arbitrary: r)
  case Nil
  show ?case by simp
next
  case (Cons d ds)
  show ?case
  proof (cases "resolve_directive gsm mad d")
    case None
    then show ?thesis
      by (simp only: fold_simps chain_steps_unresolved [OF None] plan_servant_step_unresolved [OF None]
          Cons.IH)
  next
    case (Some a)
    obtain ms gs where a: "a = (ms, gs)" by (cases a)
    with Some have res: "resolve_directive gsm mad d = Some (ms, gs)" by simp
    show ?thesis
      by (simp only: fold_simps chain_steps_resolved [OF res] Cons.IH
          recorded_step_resolved [OF res] group_step_resolved [OF res] fst_conv list.map)
  qed
qed

lemma targetPlan_step_resolved:
  assumes "resolve_directive gsm mad d = Some (ms, gs)"
  shows "pr_targetPlan (plan_servant_step gsm mad p opts isT tc d r) =
     (if isT then addEnhancementRequirements (pr_targetPlan r) (step_cost mad (step_of r opts tc ms gs d))
      else pr_targetPlan r)"
  by (simp add: plan_servant_step_resolved [OF assms] targetPlan_accumulate)

lemma walk_targetPlan_target:
  "pr_targetPlan (fold (plan_servant_step gsm mad p opts True tc) ds r) =
     fold (\<lambda>c acc. addEnhancementRequirements acc c)
       (map (step_cost mad) (fst (chain_steps gsm mad opts tc (recorded r) ds)))
       (pr_targetPlan r)"
proof (induction ds arbitrary: r)
  case Nil
  show ?case by simp
next
  case (Cons d ds)
  show ?case
  proof (cases "resolve_directive gsm mad d")
    case None
    then show ?thesis
      by (simp only: fold_simps chain_steps_unresolved [OF None] plan_servant_step_unresolved [OF None]
          Cons.IH)
  next
    case (Some a)
    obtain ms gs where a: "a = (ms, gs)" by (cases a)
    with Some have res: "resolve_directive gsm mad d = Some (ms, gs)" by simp
    show ?thesis
      by (simp only: fold_simps chain_steps_resolved [OF res] Cons.IH
          recorded_step_resolved [OF res] targetPlan_step_resolved [OF res] fst_conv list.map
          if_True)
  qed
qed

lemma walk_targetPlan_previous:
  "pr_targetPlan (fold (plan_servant_step gsm mad p opts False tc) ds r) = pr_targetPlan r"
proof (induction ds arbitrary: r)
  case Nil
  show ?case by simp
next
  case (Cons d ds)
  show ?case
  proof (cases "resolve_directive gsm mad d")
    case None
    then show ?thesis
      by (simp only: fold_simps plan_servant_step_unresolved [OF None] Cons.IH)
  next
    case (Some a)
    obtain ms gs where a: "a = (ms, gs)" by (cases a)
    with Some have res: "resolve_directive gsm mad d = Some (ms, gs)" by simp
    show ?thesis
      by (simp only: fold_simps Cons.IH targetPlan_step_resolved [OF res] if_False)
  qed
qed

lemma previousPlans_step_resolved:
  assumes "resolve_directive gsm mad d = Some (ms, gs)"
  shows "pr_previousPlans (plan_servant_step gsm mad p opts isT tc d r) =
     (if isT then pr_previousPlans r
      else fmupd (pl_id p)
             (addEnhancementRequirements
                (case fmlookup (pr_previousPlans r) (pl_id p) of
                   None \<Rightarrow> priv_instantiateEnhancementRequirements | Some b \<Rightarrow> b)
                (step_cost mad (step_of r opts tc ms gs d)))
             (pr_previousPlans r))"
  by (simp add: plan_servant_step_resolved [OF assms] previousPlans_accumulate)

lemma walk_previousPlans_target:
  "pr_previousPlans (fold (plan_servant_step gsm mad p opts True tc) ds r) = pr_previousPlans r"
proof (induction ds arbitrary: r)
  case Nil
  show ?case by simp
next
  case (Cons d ds)
  show ?case
  proof (cases "resolve_directive gsm mad d")
    case None
    then show ?thesis
      by (simp only: fold_simps plan_servant_step_unresolved [OF None] Cons.IH)
  next
    case (Some a)
    obtain ms gs where a: "a = (ms, gs)" by (cases a)
    with Some have res: "resolve_directive gsm mad d = Some (ms, gs)" by simp
    show ?thesis
      by (simp only: fold_simps Cons.IH previousPlans_step_resolved [OF res] if_True)
  qed
qed

lemma walk_previousPlans_previous:
  "pr_previousPlans (fold (plan_servant_step gsm mad p opts False tc) ds r) =
     (case fst (chain_steps gsm mad opts tc (recorded r) ds) of
        [] \<Rightarrow> pr_previousPlans r
      | step # steps \<Rightarrow>
          fmupd (pl_id p)
            (fold (\<lambda>c acc. addEnhancementRequirements acc c)
               (map (step_cost mad) (step # steps))
               (case fmlookup (pr_previousPlans r) (pl_id p) of
                  None \<Rightarrow> priv_instantiateEnhancementRequirements | Some b \<Rightarrow> b))
            (pr_previousPlans r))"
proof (induction ds arbitrary: r)
  case Nil
  show ?case by simp
next
  case (Cons d ds)
  show ?case
  proof (cases "resolve_directive gsm mad d")
    case None
    then show ?thesis
      by (simp only: fold_simps chain_steps_unresolved [OF None] plan_servant_step_unresolved [OF None]
          Cons.IH)
  next
    case (Some a)
    obtain ms gs where a: "a = (ms, gs)" by (cases a)
    with Some have res: "resolve_directive gsm mad d = Some (ms, gs)" by simp
    define rest where
      "rest = fst (chain_steps gsm mad opts tc
                     ((recorded r)(ps_instanceId d \<mapsto> cloneEnhancements d)) ds)"
    have "pr_previousPlans (fold (plan_servant_step gsm mad p opts False tc) (d # ds) r) =
        (case rest of
           [] \<Rightarrow> pr_previousPlans (plan_servant_step gsm mad p opts False tc d r)
         | step # steps \<Rightarrow>
             fmupd (pl_id p)
               (fold (\<lambda>c acc. addEnhancementRequirements acc c)
                  (map (step_cost mad) (step # steps))
                  (case fmlookup (pr_previousPlans (plan_servant_step gsm mad p opts False tc d r))
                          (pl_id p) of
                     None \<Rightarrow> priv_instantiateEnhancementRequirements | Some b \<Rightarrow> b))
               (pr_previousPlans (plan_servant_step gsm mad p opts False tc d r)))"
      by (simp only: fold_simps Cons.IH recorded_step_resolved [OF res] rest_def)
    moreover have "fst (chain_steps gsm mad opts tc (recorded r) (d # ds)) =
        step_of r opts tc ms gs d # rest"
      by (simp only: chain_steps_resolved [OF res] fst_conv rest_def)
    ultimately show ?thesis
      by (cases rest) (simp_all add: previousPlans_step_resolved [OF res])
  qed
qed

lemma walk_itemDebt:
  "pr_itemDebt (fold (plan_servant_step gsm mad p opts isT tc) ds r) = pr_itemDebt r"
proof (induction ds arbitrary: r)
  case Nil
  show ?case by simp
next
  case (Cons d ds)
  show ?case
  proof (cases "resolve_directive gsm mad d")
    case None
    then show ?thesis
      by (simp only: fold_simps plan_servant_step_unresolved [OF None] Cons.IH)
  next
    case (Some a)
    obtain ms gs where a: "a = (ms, gs)" by (cases a)
    with Some have res: "resolve_directive gsm mad d = Some (ms, gs)" by simp
    show ?thesis
      by (simp add: Cons.IH plan_servant_step_resolved [OF res] itemDebt_accumulate)
  qed
qed

subsection \<open>The walk over the plans\<close>

lemma plan_recorded:
  "recorded (priv_computePlanRequirements r gsm mad p opts isT) =
     snd (plan_steps gsm mad opts (recorded r) p)"
  by (simp add: priv_computePlanRequirements_def plan_steps_def walk_recorded)

lemma plan_group:
  "pr_group (priv_computePlanRequirements r gsm mad p opts isT) =
     fold (\<lambda>c acc. addEnhancementRequirements acc c)
       (map (step_cost mad) (fst (plan_steps gsm mad opts (recorded r) p))) (pr_group r)"
  by (simp add: priv_computePlanRequirements_def plan_steps_def walk_group)

lemma plan_targetPlan_target:
  "pr_targetPlan (priv_computePlanRequirements r gsm mad p opts True) =
     fold (\<lambda>c acc. addEnhancementRequirements acc c)
       (map (step_cost mad) (fst (plan_steps gsm mad opts (recorded r) p))) (pr_targetPlan r)"
  by (simp add: priv_computePlanRequirements_def plan_steps_def walk_targetPlan_target)

lemma plan_targetPlan_previous:
  "pr_targetPlan (priv_computePlanRequirements r gsm mad p opts False) = pr_targetPlan r"
  by (simp add: priv_computePlanRequirements_def walk_targetPlan_previous)

lemma plans_recorded:
  "recorded (fold (\<lambda>plan r. priv_computePlanRequirements r gsm mad plan opts False) plans r) =
     recorded_after gsm mad opts (recorded r) plans"
  by (induction plans arbitrary: r) (simp_all add: plan_recorded)

lemma plans_group:
  "pr_group (fold (\<lambda>plan r. priv_computePlanRequirements r gsm mad plan opts False) plans r) =
     fold (\<lambda>c acc. addEnhancementRequirements acc c)
       (map (step_cost mad) (chain_of_plans gsm mad opts (recorded r) plans)) (pr_group r)"
  by (induction plans arbitrary: r) (simp_all add: plan_recorded plan_group)

lemma plans_targetPlan:
  "pr_targetPlan (fold (\<lambda>plan r. priv_computePlanRequirements r gsm mad plan opts False) plans r) =
     pr_targetPlan r"
  by (induction plans arbitrary: r) (simp_all add: plan_targetPlan_previous)

lemma chain_of_plans_append:
  "chain_of_plans gsm mad opts rec (ps @ qs) =
     chain_of_plans gsm mad opts rec ps
     @ chain_of_plans gsm mad opts (recorded_after gsm mad opts rec ps) qs"
  by (induction ps arbitrary: rec) simp_all

lemma recorded_fresh: "recorded priv_instantiatePlanRequirements = Map.empty"
  by (simp add: recorded_def priv_instantiatePlanRequirements_def)

lemma computePlanRequirements_eq:
  "computePlanRequirements gsm acct tp prev ov =
     priv_computePlanRequirements
       (fold (\<lambda>plan r. priv_computePlanRequirements r gsm (priv_preProcessMasterAccount acct) plan
                 (plan_options tp ov) False)
          (preceding prev) priv_instantiatePlanRequirements)
       gsm (priv_preProcessMasterAccount acct) tp (plan_options tp ov) True"
  by (cases prev; cases ov)
     (simp_all add: computePlanRequirements_def Let_def preceding_def plan_options_def)

lemma computePlanRequirements_targetPlan:
  "pr_targetPlan (computePlanRequirements gsm acct tp prev ov) =
     sumEnhancementRequirements
       (map (step_cost (priv_preProcessMasterAccount acct))
          (fst (plan_steps gsm (priv_preProcessMasterAccount acct) (plan_options tp ov)
                  (recorded_after gsm (priv_preProcessMasterAccount acct) (plan_options tp ov)
                     Map.empty (preceding prev))
                  tp)))"
  by (simp add: computePlanRequirements_eq plan_targetPlan_target plans_recorded plans_targetPlan
      recorded_fresh sumEnhancementRequirements_def)
     (simp add: priv_instantiatePlanRequirements_def)

lemma computePlanRequirements_group:
  "pr_group (computePlanRequirements gsm acct tp prev ov) =
     sumEnhancementRequirements
       (map (step_cost (priv_preProcessMasterAccount acct))
          (chain_of_plans gsm (priv_preProcessMasterAccount acct) (plan_options tp ov)
             Map.empty (preceding prev @ [tp])))"
  by (simp add: computePlanRequirements_eq plan_group plans_recorded plans_group
      recorded_fresh sumEnhancementRequirements_def chain_of_plans_append)
     (simp add: priv_instantiatePlanRequirements_def)

lemma computePlanRequirements_recorded:
  "recorded (computePlanRequirements gsm acct tp prev ov) =
     recorded_after gsm (priv_preProcessMasterAccount acct) (plan_options tp ov)
       Map.empty (preceding prev @ [tp])"
proof -
  have "\<And>rec ps. recorded_after gsm (priv_preProcessMasterAccount acct) (plan_options tp ov) rec (ps @ [tp]) =
     snd (plan_steps gsm (priv_preProcessMasterAccount acct) (plan_options tp ov)
       (recorded_after gsm (priv_preProcessMasterAccount acct) (plan_options tp ov) rec ps) tp)"
  proof -
    fix rec ps
    show "recorded_after gsm (priv_preProcessMasterAccount acct) (plan_options tp ov) rec (ps @ [tp]) =
     snd (plan_steps gsm (priv_preProcessMasterAccount acct) (plan_options tp ov)
       (recorded_after gsm (priv_preProcessMasterAccount acct) (plan_options tp ov) rec ps) tp)"
      by (induction ps arbitrary: rec) simp_all
  qed
  then show ?thesis
    by (simp add: computePlanRequirements_eq plan_recorded plans_recorded recorded_fresh)
qed

subsection \<open>Baseline promotion along the chain\<close>

lemma required_addEnhancementRequirements:
  "required key (addEnhancementRequirements a b) k = required key a k + required key b k"
  by (cases key)
     (simp_all add: required_def lookup_addEnhancementRequirements
        priv_addEnhancementItemRequirements_def split: option.splits)

lemma qp_addEnhancementRequirements:
  "er_qp (addEnhancementRequirements a b) = er_qp a + er_qp b"
  by (simp add: addEnhancementRequirements_def)

lemma required_add_all:
  "required key (fold (\<lambda>c acc. addEnhancementRequirements acc c) xs a) k =
     required key a k + (\<Sum>x\<leftarrow>xs. required key x k)"
  by (induction xs arbitrary: a) (simp_all add: required_addEnhancementRequirements)

lemma qp_add_all:
  "er_qp (fold (\<lambda>c acc. addEnhancementRequirements acc c) xs a) = er_qp a + (\<Sum>x\<leftarrow>xs. er_qp x)"
  by (induction xs arbitrary: a) (simp_all add: qp_addEnhancementRequirements)

lemma required_sumEnhancementRequirements:
  "required key (sumEnhancementRequirements xs) k = (\<Sum>x\<leftarrow>xs. required key x k)"
  by (simp add: sumEnhancementRequirements_def required_add_all required_zero)

lemma qp_sumEnhancementRequirements:
  "er_qp (sumEnhancementRequirements xs) = (\<Sum>x\<leftarrow>xs. er_qp x)"
  by (simp add: sumEnhancementRequirements_def qp_add_all qp_zero)

lemma required_step_cost_Ascensions:
  "required Ascensions (step_cost mad step) k =
     (if truthy (co_includeAscensions (cs_options step))
      then (case se_ascension (cs_target step) of
              None \<Rightarrow> 0
            | Some ta \<Rightarrow>
                (case gs_ascensionMaterials (cs_gameServant step) of
                   None \<Rightarrow> 0
                 | Some am \<Rightarrow>
                     (\<Sum>(level, ascension)\<leftarrow>ascension_levels am (se_ascension (cs_current step)) ta.
                        quantity ascension k)))
      else 0)"
  by (simp add: step_cost_def required_compute_Ascensions default_parameter_def)

lemma required_step_cost_Costumes:
  "required Costumes (step_cost mad step) k =
     (if truthy (co_includeCostumes (cs_options step))
      then (\<Sum>(costumeId, costume)\<leftarrow>
              costumes_to_unlock (gs_costumes (cs_gameServant step)) (mad_costumes mad)
                (Some (cs_targetCostumes step)).
            quantity (gc_materials costume) k)
      else 0)"
  by (simp add: step_cost_def required_compute_Costumes default_parameter_def)

text \<open>
  Claim C1. Chain baseline promotion. \<open>_computePlanServantRequirements\<close> leaves in the result,
  under the instance id of the directive, an entry whose target is the target of the
  directive and whose current state is the live state of the master servant when the
  result had no entry for the instance id (first encounter), and the target the result
  had recorded otherwise (later encounters); the requirements it returns are those from
  this current state to this target. Over a whole call of \<open>computePlanRequirements\<close> the
  recorded targets and the requirements of the target plan are those of the chain rule:
  every directive starts from the target recorded by the previous directive for the same
  instance. The ascension cost of a step covers exactly the breakpoints strictly above
  its baseline and at or below its target.
\<close>

theorem chain_baseline_promotion:
  "(\<exists>entry.
      snd (priv_computePlanServantRequirements result gameServant masterServant planServant
             currentCostumes targetCostumes options) =
        Some (entry,
              priv_computeServantEnhancementRequirements gameServant (psr_current entry)
                currentCostumes (psr_target entry) (Some targetCostumes) (Some options))
      \<and> pr_servants
          (fst (priv_computePlanServantRequirements result gameServant masterServant planServant
                  currentCostumes targetCostumes options))
          (ps_instanceId planServant) = Some entry
      \<and> psr_current entry =
          (case pr_servants result (ps_instanceId planServant) of
             None \<Rightarrow> cloneEnhancements masterServant
           | Some existing \<Rightarrow> psr_target existing)
      \<and> psr_target entry = cloneEnhancements planServant)
   \<and> recorded (computePlanRequirements gameServantMap masterAccount targetPlan previousPlans
                 optionsOverride) =
       recorded_after gameServantMap (priv_preProcessMasterAccount masterAccount)
         (plan_options targetPlan optionsOverride) Map.empty (preceding previousPlans @ [targetPlan])
   \<and> pr_targetPlan (computePlanRequirements gameServantMap masterAccount targetPlan previousPlans
                      optionsOverride) =
       sumEnhancementRequirements
         (map (step_cost (priv_preProcessMasterAccount masterAccount))
            (fst (plan_steps gameServantMap (priv_preProcessMasterAccount masterAccount)
                    (plan_options targetPlan optionsOverride)
                    (recorded_after gameServantMap (priv_preProcessMasterAccount masterAccount)
                       (plan_options targetPlan optionsOverride) Map.empty
                       (preceding previousPlans))
                    targetPlan)))
   \<and> required Ascensions (step_cost masterAccountData step) itemId =
       (if truthy (co_includeAscensions (cs_options step))
        then (case se_ascension (cs_target step) of
                None \<Rightarrow> 0
              | Some targetAscension \<Rightarrow>
                  (case gs_ascensionMaterials (cs_gameServant step) of
                     None \<Rightarrow> 0
                   | Some ascensionMaterials \<Rightarrow>
                       (\<Sum>(level, ascension)\<leftarrow>
                           ascension_levels ascensionMaterials (se_ascension (cs_current step))
                             targetAscension.
                          quantity ascension itemId)))
        else 0)"
proof -
  have "snd (priv_computePlanServantRequirements result gameServant masterServant planServant
             currentCostumes targetCostumes options) =
        Some (entry_after result masterServant planServant,
              priv_computeServantEnhancementRequirements gameServant
                (psr_current (entry_after result masterServant planServant))
                currentCostumes (psr_target (entry_after result masterServant planServant))
                (Some targetCostumes) (Some options))
      \<and> pr_servants
          (fst (priv_computePlanServantRequirements result gameServant masterServant planServant
                  currentCostumes targetCostumes options))
          (ps_instanceId planServant) = Some (entry_after result masterServant planServant)
      \<and> psr_current (entry_after result masterServant planServant) =
          (case pr_servants result (ps_instanceId planServant) of
             None \<Rightarrow> cloneEnhancements masterServant
           | Some existing \<Rightarrow> psr_target existing)
      \<and> psr_target (entry_after result masterServant planServant) = cloneEnhancements planServant"
    by (simp add: priv_computePlanServantRequirements_eq entry_after_current entry_after_target)
  then have first: "\<exists>entry.
      snd (priv_computePlanServantRequirements result gameServant masterServant planServant
             currentCostumes targetCostumes options) =
        Some (entry,
              priv_computeServantEnhancementRequirements gameServant (psr_current entry)
                currentCostumes (psr_target entry) (Some targetCostumes) (Some options))
      \<and> pr_servants
          (fst (priv_computePlanServantRequirements result gameServant masterServant planServant
                  currentCostumes targetCostumes options))
          (ps_instanceId planServant) = Some entry
      \<and> psr_current entry =
          (case pr_servants result (ps_instanceId planServant) of
             None \<Rightarrow> cloneEnhancements masterServant
           | Some existing \<Rightarrow> psr_target existing)
      \<and> psr_target entry = cloneEnhancements planServant"
    by (rule exI)
  show ?thesis
    using first
    by (simp only: computePlanRequirements_recorded computePlanRequirements_targetPlan
        required_step_cost_Ascensions simp_thms)
qed

text \<open>
  Live ascension 0, plan A targets ascension 2 and plan B ascension 4, the breakpoints 1
  to 4 costing 1, 10, 100 and 1000 of the material 7: after plan A, plan B costs 1100
  (the levels 3 and 4); plan A records the target 2; on its own plan B costs 1111.
\<close>

theorem chain_baseline_promotion_witness:
  "required Ascensions
     (pr_targetPlan (computePlanRequirements ex_catalog (ex_account 1) ex_chain_B (Some [ex_chain_A]) None))
     7 = 1100
   \<and> map_option se_ascension
       (recorded (computePlanRequirements ex_catalog (ex_account 1) ex_chain_A None None) 1) =
     Some (Some 2)
   \<and> required Ascensions
     (pr_targetPlan (computePlanRequirements ex_catalog (ex_account 1) ex_chain_B None None))
     7 = 1111"
proof -
  have e: "required Ascensions (sumEnhancementRequirements
         (map (step_cost (priv_preProcessMasterAccount (ex_account 1)))
            (fst (plan_steps ex_catalog (priv_preProcessMasterAccount (ex_account 1))
                    (plan_options ex_chain_B None)
                    (recorded_after ex_catalog (priv_preProcessMasterAccount (ex_account 1))
                       (plan_options ex_chain_B None) Map.empty
                       (preceding (Some [ex_chain_A])))
                    ex_chain_B)))) 7 = 1100"
    by code_simp
  have f: "map_option se_ascension
       (recorded_after ex_catalog (priv_preProcessMasterAccount (ex_account 1))
         (plan_options ex_chain_A None) Map.empty (preceding None @ [ex_chain_A]) 1) =
     Some (Some 2)"
    by code_simp
  have g: "required Ascensions (sumEnhancementRequirements
         (map (step_cost (priv_preProcessMasterAccount (ex_account 1)))
            (fst (plan_steps ex_catalog (priv_preProcessMasterAccount (ex_account 1))
                    (plan_options ex_chain_B None)
                    (recorded_after ex_catalog (priv_preProcessMasterAccount (ex_account 1))
                       (plan_options ex_chain_B None) Map.empty
                       (preceding None))
                    ex_chain_B)))) 7 = 1111"
    by code_simp
  show ?thesis
    using chain_baseline_promotion [of _ _ _ _ _ _ _ ex_catalog "ex_account 1" ex_chain_B
        "Some [ex_chain_A]" None]
      chain_baseline_promotion [of _ _ _ _ _ _ _ ex_catalog "ex_account 1" ex_chain_A None None]
      chain_baseline_promotion [of _ _ _ _ _ _ _ ex_catalog "ex_account 1" ex_chain_B None None]
      e f g
    by simp
qed

subsection \<open>The group total\<close>

text \<open>
  Claim C6, as stated, fails. The costume 11 costs 5 of the material 7 and 300 QP once.
  Plan A alone puts 5 and 300 into the group total. When plan B, which targets the same
  costume, follows plan A, the group total holds 10 and 600: the costume is counted once
  per plan, not once.
\<close>

theorem costume_counted_once_per_plan:
  "required Costumes
     (pr_group (computePlanRequirements ex_catalog (ex_account 1) ex_costume_A None None)) 7 = 5
   \<and> er_qp (pr_group (computePlanRequirements ex_catalog (ex_account 1) ex_costume_A None None)) = 300
   \<and> required Costumes
     (pr_group (computePlanRequirements ex_catalog (ex_account 1) ex_costume_B (Some [ex_costume_A]) None))
     7 = 10
   \<and> er_qp (pr_group (computePlanRequirements ex_catalog (ex_account 1) ex_costume_B (Some [ex_costume_A]) None))
     = 600
   \<and> required Costumes
     (pr_group (computePlanRequirements ex_catalog (ex_account 1) ex_costume_B (Some [ex_costume_A]) None))
     7 \<noteq> 5"
  by code_simp

text \<open>
  Claim C6, amended. The group total of a call is the sum of the incremental costs of all
  steps of the chain, those of the preceding plans and of the target plan. Level steps are
  kept apart by the baseline only: a step counts the ascension breakpoints strictly above
  the baseline promoted from the previous step of the same instance and at or below its
  own target. Costume costs are not kept apart: every step counts every costume of its
  unit that the account has not unlocked and that its plan targets, so a costume that
  several plans target is counted once for each of them.
\<close>

theorem group_aggregate_sums_every_step:
  "pr_group (computePlanRequirements gameServantMap masterAccount targetPlan previousPlans
               optionsOverride) =
     sumEnhancementRequirements
       (map (step_cost (priv_preProcessMasterAccount masterAccount))
          (chain_of_plans gameServantMap (priv_preProcessMasterAccount masterAccount)
             (plan_options targetPlan optionsOverride) Map.empty
             (preceding previousPlans @ [targetPlan])))
   \<and> required Ascensions
       (pr_group (computePlanRequirements gameServantMap masterAccount targetPlan previousPlans
                    optionsOverride)) itemId =
     (\<Sum>step\<leftarrow>chain_of_plans gameServantMap (priv_preProcessMasterAccount masterAccount)
               (plan_options targetPlan optionsOverride) Map.empty
               (preceding previousPlans @ [targetPlan]).
        if truthy (co_includeAscensions (cs_options step))
        then (case se_ascension (cs_target step) of
                None \<Rightarrow> 0
              | Some targetAscension \<Rightarrow>
                  (case gs_ascensionMaterials (cs_gameServant step) of
                     None \<Rightarrow> 0
                   | Some ascensionMaterials \<Rightarrow>
                       (\<Sum>(level, ascension)\<leftarrow>
                           ascension_levels ascensionMaterials (se_ascension (cs_current step))
                             targetAscension.
                          quantity ascension itemId)))
        else 0)
   \<and> required Costumes
       (pr_group (computePlanRequirements gameServantMap masterAccount targetPlan previousPlans
                    optionsOverride)) itemId =
     (\<Sum>step\<leftarrow>chain_of_plans gameServantMap (priv_preProcessMasterAccount masterAccount)
               (plan_options targetPlan optionsOverride) Map.empty
               (preceding previousPlans @ [targetPlan]).
        if truthy (co_includeCostumes (cs_options step))
        then (\<Sum>(costumeId, costume)\<leftarrow>
                 costumes_to_unlock (gs_costumes (cs_gameServant step))
                   (set (ma_costumes masterAccount)) (Some (cs_targetCostumes step)).
               quantity (gc_materials costume) itemId)
        else 0)"
proof -
  have c: "mad_costumes (priv_preProcessMasterAccount masterAccount) = set (ma_costumes masterAccount)"
    by (simp add: priv_preProcessMasterAccount_def)
  show ?thesis
    by (simp add: computePlanRequirements_group required_sumEnhancementRequirements
        required_step_cost_Ascensions required_step_cost_Costumes comp_def c cong: if_cong)
qed

text \<open>
  The costume targeted by both plans is in the group total twice; the ascension levels of
  the chain from 0 over 2 to 4 are in it once each.
\<close>

theorem group_aggregate_sums_every_step_witness:
  "required Costumes
     (pr_group (computePlanRequirements ex_catalog (ex_account 1) ex_costume_B (Some [ex_costume_A]) None))
     7 = 5 + 5
   \<and> required Ascensions
     (pr_group (computePlanRequirements ex_catalog (ex_account 1) ex_chain_B (Some [ex_chain_A]) None))
     7 = 11 + 1100"
proof -
  have a: "(\<Sum>step\<leftarrow>chain_of_plans ex_catalog (priv_preProcessMasterAccount (ex_account 1))
               (plan_options ex_costume_B None) Map.empty
               (preceding (Some [ex_costume_A]) @ [ex_costume_B]).
        if truthy (co_includeCostumes (cs_options step))
        then (\<Sum>(costumeId, costume)\<leftarrow>
                 costumes_to_unlock (gs_costumes (cs_gameServant step))
                   (set (ma_costumes (ex_account 1))) (Some (cs_targetCostumes step)).
               quantity (gc_materials costume) 7)
        else 0) = 5 + 5"
    by code_simp
  have b: "(\<Sum>step\<leftarrow>chain_of_plans ex_catalog (priv_preProcessMasterAccount (ex_account 1))
               (plan_options ex_chain_B None) Map.empty
               (preceding (Some [ex_chain_A]) @ [ex_chain_B]).
        if truthy (co_includeAscensions (cs_options step))
        then (case se_ascension (cs_target step) of
                None \<Rightarrow> 0
              | Some targetAscension \<Rightarrow>
                  (case gs_ascensionMaterials (cs_gameServant step) of
                     None \<Rightarrow> 0
                   | Some ascensionMaterials \<Rightarrow>
                       (\<Sum>(level, ascension)\<leftarrow>
                           ascension_levels ascensionMaterials (se_ascension (cs_current step))
                             targetAscension.
                          quantity ascension 7)))
        else 0) = 11 + 1100"
    by code_simp
  note costumes =
    group_aggregate_sums_every_step [of ex_catalog "ex_account 1" ex_costume_B
      "Some [ex_costume_A]" None 7, THEN conjunct2, THEN conjunct2]
  note ascensions =
    group_aggregate_sums_every_step [of ex_catalog "ex_account 1" ex_chain_B
      "Some [ex_chain_A]" None 7, THEN conjunct2, THEN conjunct1]
  show ?thesis
    by (simp only: costumes ascensions a b simp_thms)
qed

subsection \<open>Options of the preceding plans\<close>








lemma chain_steps_all_unresolved:
  "(\<And>d. d \<in> set ds \<Longrightarrow> resolve_directive gsm mad d = None) \<Longrightarrow>
   chain_steps gsm mad opts tc rec ds = ([], rec)"
  by (induction ds) simp_all

lemma chain_of_plans_all_unresolved:
  "(\<And>p d. p \<in> set ps \<Longrightarrow> d \<in> set (pl_servants p) \<Longrightarrow> resolve_directive gsm mad d = None) \<Longrightarrow>
   chain_of_plans gsm mad opts rec ps = []"
proof (induction ps arbitrary: rec)
  case Nil
  show ?case by simp
next
  case (Cons p ps)
  have "chain_steps gsm mad opts (set (pl_costumes p)) rec (pl_servants p) = ([], rec)"
    by (rule chain_steps_all_unresolved) (rule Cons.prems, simp_all)
  moreover have "chain_of_plans gsm mad opts rec ps = []"
    by (rule Cons.IH) (rule Cons.prems, simp_all)
  ultimately show ?case
    by (simp add: plan_steps_def)
qed






text \<open>
  Claim C2 on the code. \<open>_mergeComputationOptions\<close> computes \<open>includeAscensions\<close> as
  \<open>a.includeAscensions && a.includeAscensions\<close>: the flag of the directive is not read. A
  directive that disables ascensions, in a plan that enables them, is still charged the
  four ascension breakpoints (1111 of the material 7); disabling them in the plan gives 0.
\<close>

theorem unit_level_ascension_flag_ignored:
  "co_includeAscensions (priv_mergeComputationOptions planOptions servantOptions) =
     co_includeAscensions planOptions
   \<and> co_includeAscensions
       (priv_mergeComputationOptions (priv_parseComputationOptions (ex_enabled True))
          (priv_parseComputationOptions (ex_enabled False))) = Some True
   \<and> required Ascensions
       (pr_targetPlan
          (computePlanRequirements ex_catalog (ex_account 1)
             (ex_plan ''P'' [ex_directive 1 4 1 (ex_enabled False)] []) None None)) 7 = 1111
   \<and> required Ascensions
       (pr_targetPlan
          (computePlanRequirements ex_catalog (ex_account 1)
             ((ex_plan ''P'' [ex_directive 1 4 1 (ex_enabled True)] [])
                \<lparr>pl_enabled := ex_flags_off\<rparr>) None None)) 7 = 0"
proof -
  have gen: "co_includeAscensions (priv_mergeComputationOptions planOptions servantOptions) =
     co_includeAscensions planOptions"
    by (simp add: priv_mergeComputationOptions_def js_and_def)
  have ex: "co_includeAscensions
       (priv_mergeComputationOptions (priv_parseComputationOptions (ex_enabled True))
          (priv_parseComputationOptions (ex_enabled False))) = Some True
   \<and> required Ascensions
       (pr_targetPlan
          (computePlanRequirements ex_catalog (ex_account 1)
             (ex_plan ''P'' [ex_directive 1 4 1 (ex_enabled False)] []) None None)) 7 = 1111
   \<and> required Ascensions
       (pr_targetPlan
          (computePlanRequirements ex_catalog (ex_account 1)
             ((ex_plan ''P'' [ex_directive 1 4 1 (ex_enabled True)] [])
                \<lparr>pl_enabled := ex_flags_off\<rparr>) None None)) 7 = 0"
    by code_simp
  from gen ex show ?thesis by (simp only: simp_thms)
qed

text \<open>
  Claim C7 on the code. In \<open>computePlanRequirements\<close> the options override is merged with
  the options parsed from the directive, which never have \<open>excludeLores\<close>, so the merged
  \<open>excludeLores\<close> is undefined: with skills at 9 and a target of 10 the lore step is charged
  (3 of the material 7 and 6000 QP) although the override excludes lores. Passed directly
  to \<open>computeServantEnhancementRequirements\<close>, the same options skip the step.
\<close>

theorem exclude_lores_override_ignored:
  "truthy (co_excludeLores
             (priv_mergeComputationOptions planOptions (priv_parseComputationOptions enabled)))
     = False
   \<and> co_excludeLores
       (priv_mergeComputationOptions ex_exclude_lores
          (priv_parseComputationOptions (ex_enabled True))) = None
   \<and> required Skills
       (pr_targetPlan
          (computePlanRequirements ex_catalog (ex_account 9)
             (ex_plan ''P'' [ex_directive 1 0 10 (ex_enabled True)] []) None
             (Some ex_exclude_lores))) 7 = 3
   \<and> er_qp
       (pr_targetPlan
          (computePlanRequirements ex_catalog (ex_account 9)
             (ex_plan ''P'' [ex_directive 1 0 10 (ex_enabled True)] []) None
             (Some ex_exclude_lores))) = 6000
   \<and> required Skills
       (computeServantEnhancementRequirements ex_unit
          \<lparr>se_ascension = Some 4, se_skills = ex_levels 9, se_appendSkills = ex_levels 10\<rparr>
          [11] (Some ex_exclude_lores)) 7 = 0
   \<and> er_qp
       (computeServantEnhancementRequirements ex_unit
          \<lparr>se_ascension = Some 4, se_skills = ex_levels 9, se_appendSkills = ex_levels 10\<rparr>
          [11] (Some ex_exclude_lores)) = 0
   \<and> required Skills
       (computeServantEnhancementRequirements ex_unit
          \<lparr>se_ascension = Some 4, se_skills = ex_levels 9, se_appendSkills = ex_levels 10\<rparr>
          [11] None) 7 = 3"
proof -
  have gen: "truthy (co_excludeLores
             (priv_mergeComputationOptions planOptions (priv_parseComputationOptions enabled)))
     = False"
    by (simp add: priv_mergeComputationOptions_def priv_parseComputationOptions_def js_and_def
        truthy_def)
  have ex: "co_excludeLores
       (priv_mergeComputationOptions ex_exclude_lores
          (priv_parseComputationOptions (ex_enabled True))) = None
   \<and> required Skills
       (pr_targetPlan
          (computePlanRequirements ex_catalog (ex_account 9)
             (ex_plan ''P'' [ex_directive 1 0 10 (ex_enabled True)] []) None
             (Some ex_exclude_lores))) 7 = 3
   \<and> er_qp
       (pr_targetPlan
          (computePlanRequirements ex_catalog (ex_account 9)
             (ex_plan ''P'' [ex_directive 1 0 10 (ex_enabled True)] []) None
             (Some ex_exclude_lores))) = 6000
   \<and> required Skills
       (computeServantEnhancementRequirements ex_unit
          \<lparr>se_ascension = Some 4, se_skills = ex_levels 9, se_appendSkills = ex_levels 10\<rparr>
          [11] (Some ex_exclude_lores)) 7 = 0
   \<and> er_qp
       (computeServantEnhancementRequirements ex_unit
          \<lparr>se_ascension = Some 4, se_skills = ex_levels 9, se_appendSkills = ex_levels 10\<rparr>
          [11] (Some ex_exclude_lores)) = 0
   \<and> required Skills
       (computeServantEnhancementRequirements ex_unit
          \<lparr>se_ascension = Some 4, se_skills = ex_levels 9, se_appendSkills = ex_levels 10\<rparr>
          [11] None) 7 = 3"
    by code_simp
  from gen ex show ?thesis by (simp only: simp_thms)
qed

subsection \<open>Caller structures are left unchanged\<close>

lemma kept_refl: "kept n h h"
  by (simp add: kept_def)

lemma kept_trans: "kept n h h1 \<Longrightarrow> kept n h1 h2 \<Longrightarrow> kept n h h2"
  by (simp add: kept_def)

lemma kept_assign: "n \<le> a \<Longrightarrow> kept n h (assign h a v)"
  by (simp add: kept_def assign_def)

lemma kept_allocate: "n \<le> length h \<Longrightarrow> kept n h (fst (allocate h v))"
  by (simp add: kept_def allocate_def)

lemma snd_allocate: "snd (allocate h v) = length h"
  by (simp add: allocate_def)

lemma kept_updateEnhancements_st:
  "n \<le> target \<Longrightarrow> kept n h (updateEnhancements_st h target source)"
  by (auto simp: updateEnhancements_st_def kept_assign kept_refl split: option.splits obj.splits)

lemma instantiate_st:
  assumes "n \<le> length h"
    and "priv_instantiatePlanServantRequirements_st h i ps ms = (h', c)"
  shows "kept n h h' \<and> n \<le> pc_current c \<and> n \<le> pc_target c"
proof -
  let ?h1 = "fst (instantiateEnhancements_st h)"
  let ?cur = "snd (instantiateEnhancements_st h)"
  let ?h2 = "updateEnhancements_st ?h1 ?cur ms"
  let ?h3 = "fst (cloneEnhancements_st ?h2 ps)"
  let ?tgt = "snd (cloneEnhancements_st ?h2 ps)"
  have cur: "?cur = length h" by (simp add: instantiateEnhancements_st_def snd_allocate)
  have k1: "kept n h ?h1"
    using assms(1) by (simp add: instantiateEnhancements_st_def kept_allocate)
  have k2: "kept n ?h1 ?h2"
    using assms(1) cur by (simp add: kept_updateEnhancements_st)
  have l2: "n \<le> length ?h2"
    using k1 k2 assms(1) by (simp add: kept_def)
  have k3: "kept n ?h2 ?h3"
    using l2 by (simp add: cloneEnhancements_st_def kept_allocate)
  have tgt: "?tgt = length ?h2" by (simp add: cloneEnhancements_st_def snd_allocate)
  from assms(2) have "h' = ?h3" and "pc_current c = ?cur" and "pc_target c = ?tgt"
    by (auto simp: priv_instantiatePlanServantRequirements_st_def Let_def split: prod.splits)
  with k1 k2 k3 cur tgt l2 assms(1) show ?thesis
    by (auto intro: kept_trans)
qed

lemma compute_st:
  assumes "n \<le> length h" and "owned n result"
    and "priv_computePlanServantRequirements_st h result gs ms i ps cc tc opts = (h', result', out)"
  shows "kept n h h' \<and> owned n result'
    \<and> (\<forall>c req. out = Some (c, req) \<longrightarrow> n \<le> pc_current c \<and> n \<le> pc_target c)"
proof (cases "rq_servants result i")
  case None
  obtain h0 c0 where inst: "priv_instantiatePlanServantRequirements_st h i ps ms = (h0, c0)"
    by (cases "priv_instantiatePlanServantRequirements_st h i ps ms")
  from instantiate_st [OF assms(1) inst]
  have k: "kept n h h0" and c: "n \<le> pc_current c0" "n \<le> pc_target c0" by simp_all
  from assms(3) None inst have "h' = h0"
    and r: "result' = result\<lparr>rq_servants := (rq_servants result)(i \<mapsto> c0)\<rparr>"
    and o: "\<exists>req. out = Some (c0, req)"
    by (auto simp: priv_computePlanServantRequirements_st_def Let_def)
  with k c assms(2) show ?thesis
    by (auto simp: owned_def)
next
  case (Some existing)
  from assms(2) Some have e: "n \<le> pc_current existing" "n \<le> pc_target existing"
    by (auto simp: owned_def)
  let ?h1 = "updateEnhancements_st h (pc_current existing) (pc_target existing)"
  let ?h2 = "updateEnhancements_st ?h1 (pc_target existing) ps"
  have k: "kept n h ?h2"
    using e by (blast intro: kept_trans kept_updateEnhancements_st)
  from assms(3) Some have "h' = ?h2"
    and r: "result' = result\<lparr>rq_servants := (rq_servants result)(i \<mapsto> existing)\<rparr>"
    and o: "\<exists>req. out = Some (existing, req)"
    by (auto simp: priv_computePlanServantRequirements_st_def Let_def)
  with k e assms(2) show ?thesis
    by (auto simp: owned_def)
qed

lemma owned_accumulate:
  assumes "owned n result" and "n \<le> pc_current c" and "n \<le> pc_target c"
  shows "owned n (accumulate_requirements_st plan isT i c req result)"
  using assms
  by (auto simp: owned_def accumulate_requirements_st_def Let_def getOrDefault_def
      split: option.splits if_splits)

lemma step_st:
  assumes "n \<le> length h" and "owned n result"
    and "plan_servant_step_st gsm mad plan opts isT tc ref (h, result) = (h', result')"
  shows "kept n h h' \<and> owned n result'"
proof -
  {
    fix ps ms msref gs
    assume a: "deref h ref = Some (PlanServantObj ps)" "en_servant (ps_enabled ps)"
      "md_servants mad (ps_instanceId ps) = Some msref"
      "deref h msref = Some (MasterServantObj ms)" "gsm (ms_gameId ms) = Some gs"
    obtain h0 r0 out where
      c: "priv_computePlanServantRequirements_st h result gs msref (ps_instanceId ps) ref
            (costume_ids h (md_costumes mad)) tc
            (priv_mergeComputationOptions opts (priv_parseComputationOptions (ps_enabled ps)))
          = (h0, r0, out)"
      by (metis prod_cases3)
    from compute_st [OF assms(1,2) c]
    have k: "kept n h h0" and o: "owned n r0"
      and p: "\<forall>c req. out = Some (c, req) \<longrightarrow> n \<le> pc_current c \<and> n \<le> pc_target c"
      by simp_all
    have "kept n h h' \<and> owned n result'"
    proof (cases out)
      case None
      with assms(3) a c have "h' = h0" "result' = r0"
        by (simp_all add: plan_servant_step_st_def Let_def)
      with k o show ?thesis by simp
    next
      case (Some pair)
      obtain c0 req where pair: "pair = (c0, req)" by (cases pair)
      with assms(3) a c Some have "h' = h0"
        and "result' = accumulate_requirements_st plan isT (ps_instanceId ps) c0 req r0"
        by (simp_all add: plan_servant_step_st_def Let_def)
      moreover from p Some pair have "n \<le> pc_current c0" "n \<le> pc_target c0" by simp_all
      ultimately show ?thesis
        using k o by (simp add: owned_accumulate)
    qed
  }
  note resolved = this
  show ?thesis
  proof (cases "deref h ref")
    case None
    with assms show ?thesis
      by (simp add: plan_servant_step_st_def kept_refl)
  next
    case (Some ob)
    show ?thesis
    proof (cases ob)
      case (PlanServantObj ps)
      show ?thesis
      proof (cases "en_servant (ps_enabled ps)")
        case False
        with assms Some PlanServantObj show ?thesis
          by (simp add: plan_servant_step_st_def kept_refl)
      next
        case True
        show ?thesis
        proof (cases "md_servants mad (ps_instanceId ps)")
          case None
          with assms Some PlanServantObj True show ?thesis
            by (simp add: plan_servant_step_st_def kept_refl)
        next
          case (Some msref)
          note msref = this
          show ?thesis
          proof (cases "deref h msref")
            case None
            with assms \<open>deref h ref = Some ob\<close> PlanServantObj True msref show ?thesis
              by (simp add: plan_servant_step_st_def kept_refl)
          next
            case (Some mo)
            show ?thesis
            proof (cases "\<exists>ms gs. mo = MasterServantObj ms \<and> gsm (ms_gameId ms) = Some gs")
              case True
              then obtain ms gs where "mo = MasterServantObj ms" "gsm (ms_gameId ms) = Some gs"
                by blast
              with resolved [of ps msref ms gs] \<open>deref h ref = Some ob\<close> PlanServantObj
                \<open>en_servant (ps_enabled ps)\<close> msref Some
              show ?thesis by simp
            next
              case False
              with assms \<open>deref h ref = Some ob\<close> PlanServantObj \<open>en_servant (ps_enabled ps)\<close>
                msref Some
              show ?thesis
                by (cases mo) (auto simp: plan_servant_step_st_def kept_refl split: option.splits)
            qed
          qed
        qed
      qed
    qed (use assms Some in \<open>simp_all add: plan_servant_step_st_def kept_refl\<close>)
  qed
qed

lemma fold_steps_st:
  assumes "n \<le> length h" and "owned n result"
    and "fold (plan_servant_step_st gsm mad plan opts isT tc) refs (h, result) = (h', result')"
  shows "kept n h h' \<and> owned n result'"
  using assms
proof (induction refs arbitrary: h result)
  case Nil
  then show ?case by (simp add: kept_refl)
next
  case (Cons ref refs)
  obtain h1 r1 where s: "plan_servant_step_st gsm mad plan opts isT tc ref (h, result) = (h1, r1)"
    by (cases "plan_servant_step_st gsm mad plan opts isT tc ref (h, result)")
  from step_st [OF Cons.prems(1,2) s] have k: "kept n h h1" and o: "owned n r1" by simp_all
  from k Cons.prems(1) have l: "n \<le> length h1" by (simp add: kept_def)
  from Cons.prems(3) s
  have "fold (plan_servant_step_st gsm mad plan opts isT tc) refs (h1, r1) = (h', result')"
    by simp
  from Cons.IH [OF l o this] k show ?case
    by (blast intro: kept_trans)
qed

lemma plan_st:
  assumes "n \<le> length h" and "owned n result"
    and "priv_computePlanRequirements_st (h, result) gsm mad plan opts isT = (h', result')"
  shows "kept n h h' \<and> owned n result'"
  using fold_steps_st [OF assms(1,2)] assms(3)
  by (simp add: priv_computePlanRequirements_st_def Let_def)

lemma fold_plans_st:
  assumes "n \<le> length h" and "owned n result"
    and "fold (\<lambda>plan state. priv_computePlanRequirements_st state gsm mad plan opts False)
           plans (h, result) = (h', result')"
  shows "kept n h h' \<and> owned n result'"
  using assms
proof (induction plans arbitrary: h result)
  case Nil
  then show ?case by (simp add: kept_refl)
next
  case (Cons plan plans)
  obtain h1 r1 where s: "priv_computePlanRequirements_st (h, result) gsm mad plan opts False = (h1, r1)"
    by (cases "priv_computePlanRequirements_st (h, result) gsm mad plan opts False")
  from plan_st [OF Cons.prems(1,2) s] have k: "kept n h h1" and o: "owned n r1" by simp_all
  from k Cons.prems(1) have l: "n \<le> length h1" by (simp add: kept_def)
  from Cons.prems(3) s
  have "fold (\<lambda>plan state. priv_computePlanRequirements_st state gsm mad plan opts False)
          plans (h1, r1) = (h', result')"
    by simp
  from Cons.IH [OF l o this] k show ?case
    by (blast intro: kept_trans)
qed

lemma owned_fresh: "owned n priv_instantiatePlanRequirements_st"
  by (simp add: owned_def priv_instantiatePlanRequirements_st_def)

lemma priv_preProcessMasterAccount_st_eq:
  "priv_preProcessMasterAccount_st h acct =
     (h @ [CostumeSetObj (costume_ids h (mr_costumes acct))],
      \<lparr>md_items = mr_items acct,
       md_servants = mapIterableToObject_st h (mr_servants acct),
       md_costumes = length h,
       md_qp = mr_qp acct\<rparr>)"
  by (simp add: priv_preProcessMasterAccount_st_def allocate_def Let_def)

lemma mapIterableToObject_st_ran:
  "mapIterableToObject_st h refs i = Some a \<Longrightarrow> a \<in> set refs"
proof -
  have "\<And>obj. fold (\<lambda>servant obj.
             case deref h servant of
               Some (MasterServantObj masterServant) \<Rightarrow> obj(ms_instanceId masterServant \<mapsto> servant)
             | _ \<Rightarrow> obj) refs obj i = Some a \<Longrightarrow> a \<in> set refs \<or> obj i = Some a"
  proof (induction refs)
    case Nil
    then show ?case by simp
  next
    case (Cons r refs)
    from Cons.IH [OF Cons.prems [simplified]] show ?case
      by (auto split: option.splits obj.splits if_splits)
  qed
  from this [of Map.empty] show "mapIterableToObject_st h refs i = Some a \<Longrightarrow> a \<in> set refs"
    by (simp add: mapIterableToObject_st_def)
qed

lemma computePlanRequirements_st_kept:
  "kept (length h) h (fst (computePlanRequirements_st h gsm acct tp prev ov))"
proof -
  define h1 where "h1 = h @ [CostumeSetObj (costume_ids h (mr_costumes acct))]"
  define mad where "mad = \<lparr>md_items = mr_items acct,
       md_servants = mapIterableToObject_st h (mr_servants acct),
       md_costumes = length h, md_qp = mr_qp acct\<rparr>"
  define opts where "opts = (case ov of Some override \<Rightarrow> override
             | None \<Rightarrow> priv_parseComputationOptions (pf_enabled tp))"
  define state where "state = (case prev of
               None \<Rightarrow> (h1, priv_instantiatePlanRequirements_st)
             | Some plans \<Rightarrow>
                 fold (\<lambda>plan state.
                         priv_computePlanRequirements_st state gsm mad plan opts False)
                   plans (h1, priv_instantiatePlanRequirements_st))"
  have eq: "computePlanRequirements_st h gsm acct tp prev ov =
      priv_computePlanRequirements_st state gsm mad tp opts True"
    unfolding state_def opts_def mad_def h1_def computePlanRequirements_st_def
      priv_preProcessMasterAccount_st_eq Let_def
    by simp
  have k1: "kept (length h) h h1" by (simp add: kept_def h1_def)
  have l1: "length h \<le> length h1" by (simp add: h1_def)
  obtain h2 r2 where st: "state = (h2, r2)" by (cases state)
  have k2: "kept (length h) h1 h2 \<and> owned (length h) r2"
  proof (cases prev)
    case None
    with st show ?thesis by (simp add: state_def kept_refl owned_fresh)
  next
    case (Some plans)
    with st have "fold (\<lambda>plan state. priv_computePlanRequirements_st state gsm mad plan opts False)
           plans (h1, priv_instantiatePlanRequirements_st) = (h2, r2)"
      by (simp add: state_def)
    from fold_plans_st [OF l1 owned_fresh this] show ?thesis .
  qed
  then have l2: "length h \<le> length h2" using l1 by (simp add: kept_def)
  obtain h3 r3 where fin: "priv_computePlanRequirements_st (h2, r2) gsm mad tp opts True = (h3, r3)"
    by (cases "priv_computePlanRequirements_st (h2, r2) gsm mad tp opts True")
  from plan_st [OF l2 _ fin] k2 have "kept (length h) h2 h3" by simp
  with k1 k2 have "kept (length h) h h3" by (blast intro: kept_trans)
  with eq st fin show ?thesis by simp
qed

lemma kept_prefix: "kept (length h) h h' \<Longrightarrow> take (length h) h' = h"
  by (simp add: kept_def)

lemma computeServantEnhancementRequirements_st_store:
  "fst (computeServantEnhancementRequirements_st h gs cur costumes opts) =
     h @ [CostumeSetObj (costume_ids h costumes)]"
  by (simp add: computeServantEnhancementRequirements_st_def allocate_def Let_def)

lemma deref_assign: "deref (assign h a v) b = (if b = a \<and> a < length h then Some v else deref h b)"
  by (simp add: deref_def assign_def)

lemma deref_allocate:
  "deref (fst (allocate h v)) b = (if b = length h then Some v else deref h b)"
  by (auto simp: deref_def allocate_def nth_append)

lemma length_assign: "length (assign h a v) = length h"
  by (simp add: assign_def)

lemma fold_add_item_entry_st:
  assumes "fold add_item_entry_st es (h, items) = (h', items')"
  shows "length h \<le> length h'
    \<and> (\<forall>a. a < length h \<longrightarrow> a \<notin> fmran' items \<longrightarrow> deref h' a = deref h a)
    \<and> fmran' items' \<subseteq> fmran' items \<union> {a. length h \<le> a}"
  using assms
proof (induction es arbitrary: h items)
  case Nil
  then show ?case by auto
next
  case (Cons e es)
  obtain i v where e: "e = (i, v)" by (cases e)
  obtain h1 items1 where s: "add_item_entry_st e (h, items) = (h1, items1)"
    by (cases "add_item_entry_st e (h, items)")
  have one: "length h \<le> length h1
    \<and> (\<forall>a. a < length h \<longrightarrow> a \<notin> fmran' items \<longrightarrow> deref h1 a = deref h a)
    \<and> fmran' items1 \<subseteq> fmran' items \<union> {a. length h \<le> a}"
  proof (cases "fmlookup items i")
    case None
    with s e have h1: "h1 = h @ [ItemRequirementsObj (item_requirements_at h v)]"
      and i1: "items1 = fmupd i (length h) items"
      by (auto simp: add_item_entry_st_def allocate_def)
    have "fmran' (fmupd i (length h) items) \<subseteq> insert (length h) (fmran' items)"
      by (auto simp: fmran'_alt_def fmlookup_ran_iff split: if_splits)
    with h1 i1 show ?thesis
      by (auto simp: deref_def nth_append)
  next
    case (Some t)
    with s e have h1: "h1 = assign h t
                   (ItemRequirementsObj
                      (priv_addEnhancementItemRequirements (item_requirements_at h t)
                         (item_requirements_at h v)))"
      and i1: "items1 = items"
      by (auto simp: add_item_entry_st_def)
    from Some have "t \<in> fmran' items" by (rule fmran'I)
    with h1 i1 show ?thesis
      by (auto simp: deref_assign length_assign)
  qed
  from Cons.prems s have "fold add_item_entry_st es (h1, items1) = (h', items')" by simp
  from Cons.IH [OF this]
  have rest: "length h1 \<le> length h'"
    "\<And>a. a < length h1 \<Longrightarrow> a \<notin> fmran' items1 \<Longrightarrow> deref h' a = deref h1 a"
    "fmran' items' \<subseteq> fmran' items1 \<union> {a. length h1 \<le> a}"
    by auto
  show ?case
  proof (intro conjI allI impI)
    show "length h \<le> length h'" using one rest(1) by simp
  next
    fix a assume a: "a < length h" "a \<notin> fmran' items"
    with one have "a \<notin> fmran' items1" by auto
    with a one rest(2) [of a] show "deref h' a = deref h a" by auto
  next
    show "fmran' items' \<subseteq> fmran' items \<union> {a. length h \<le> a}"
      using one rest(3) by auto
  qed
qed

lemma addEnhancementRequirements_st_frame:
  assumes "a < length h" and "a \<noteq> target" and "a \<notin> entries_of h target"
  shows "deref (addEnhancementRequirements_st h target source) a = deref h a"
proof (cases "\<exists>t s. deref h target = Some (RequirementsObj t) \<and> deref h source = Some (RequirementsObj s)")
  case True
  then obtain t s where t: "deref h target = Some (RequirementsObj t)"
    and s: "deref h source = Some (RequirementsObj s)" by blast
  obtain h' items' where f: "fold add_item_entry_st (object_entries (rc_items s)) (h, rc_items t) = (h', items')"
    by (cases "fold add_item_entry_st (object_entries (rc_items s)) (h, rc_items t)")
  from assms(3) t have "a \<notin> fmran' (rc_items t)" by (simp add: entries_of_def)
  with fold_add_item_entry_st [OF f] assms(1) have "deref h' a = deref h a" by simp
  with t s f assms(2) show ?thesis
    by (simp add: addEnhancementRequirements_st_def deref_assign)
next
  case False
  then show ?thesis
    by (auto simp: addEnhancementRequirements_st_def split: option.splits obj.splits)
qed

lemma addEnhancementRequirements_st_entries:
  "entries_of (addEnhancementRequirements_st h target source) target \<subseteq>
     entries_of h target \<union> {a. length h \<le> a}"
proof (cases "\<exists>t s. deref h target = Some (RequirementsObj t) \<and> deref h source = Some (RequirementsObj s)")
  case True
  then obtain t s where t: "deref h target = Some (RequirementsObj t)"
    and s: "deref h source = Some (RequirementsObj s)" by blast
  obtain h' items' where f: "fold add_item_entry_st (object_entries (rc_items s)) (h, rc_items t) = (h', items')"
    by (cases "fold add_item_entry_st (object_entries (rc_items s)) (h, rc_items t)")
  from fold_add_item_entry_st [OF f]
  have l: "length h \<le> length h'" and r: "fmran' items' \<subseteq> fmran' (rc_items t) \<union> {a. length h \<le> a}"
    by auto
  from t have tl: "target < length h" by (simp add: deref_def split: if_splits)
  with l have "target < length h'" by simp
  with t s f r show ?thesis
    by (simp add: addEnhancementRequirements_st_def entries_of_def deref_assign)
next
  case False
  then show ?thesis
    by (auto simp: addEnhancementRequirements_st_def split: option.splits obj.splits)
qed

text \<open>
  The walk on the store computes from the same states as the walk on values: at the first
  encounter of an instance the new entry refers to a copy of the live state and a copy
  of the target of the directive; at a later encounter, where the entry refers to two
  distinct states, the current state becomes the target recorded so far and the target
  becomes that of the directive.
\<close>

lemma store_step_first_encounter:
  assumes d: "deref h planServant = Some (PlanServantObj d)"
    and m: "deref h masterServant = Some (MasterServantObj m)"
    and none: "rq_servants result instanceId = None"
    and out: "priv_computePlanServantRequirements_st h result gameServant masterServant instanceId
        planServant cc tc opts = (h', result', Some (c, requirements))"
  shows "enhancements_at h' (pc_current c) = cloneEnhancements m
    \<and> enhancements_at h' (pc_target c) = cloneEnhancements d
    \<and> requirements =
        priv_computeServantEnhancementRequirements gameServant (cloneEnhancements m) cc
          (cloneEnhancements d) (Some tc) (Some opts)"
proof -
  from d have dl: "planServant < length h" by (simp add: deref_def split: if_splits)
  from m have ml: "masterServant < length h" by (simp add: deref_def split: if_splits)
  let ?h1 = "h @ [EnhancementsObj instantiateEnhancements]"
  let ?h2 = "?h1[length h := EnhancementsObj (cloneEnhancements m)]"
  let ?h3 = "?h2 @ [EnhancementsObj (cloneEnhancements d)]"
  have r1: "read_enhancements ?h1 masterServant = Some (cloneEnhancements m)"
    using m ml by (simp add: read_enhancements_def deref_def nth_append)
  have u: "updateEnhancements_st ?h1 (length h) masterServant = ?h2"
    using r1
    by (simp add: updateEnhancements_st_def deref_def assign_def updateEnhancements_clone
        cloneEnhancements_id)
  have r2: "read_enhancements ?h2 planServant = Some (cloneEnhancements d)"
    using d dl by (simp add: read_enhancements_def deref_def nth_append)
  have inst: "priv_instantiatePlanServantRequirements_st h instanceId planServant masterServant =
      (?h3, \<lparr>pc_instanceId = instanceId, pc_current = length h, pc_target = Suc (length h),
              pc_requirements = priv_instantiateEnhancementRequirements\<rparr>)"
    using r2
    by (simp add: priv_instantiatePlanServantRequirements_st_def instantiateEnhancements_st_def
        cloneEnhancements_st_def allocate_def Let_def u)
  have cur: "enhancements_at ?h3 (length h) = cloneEnhancements m"
    by (simp add: enhancements_at_def read_enhancements_def deref_def nth_append)
  have tgt: "enhancements_at ?h3 (Suc (length h)) = cloneEnhancements d"
    by (simp add: enhancements_at_def read_enhancements_def deref_def nth_append)
  from out none inst have "h' = ?h3" "pc_current c = length h" "pc_target c = Suc (length h)"
    and "requirements = priv_computeServantEnhancementRequirements gameServant
          (enhancements_at ?h3 (length h)) cc (enhancements_at ?h3 (Suc (length h)))
          (Some tc) (Some opts)"
    by (auto simp: priv_computePlanServantRequirements_st_def Let_def)
  with cur tgt show ?thesis by simp
qed

lemma store_step_later_encounter:
  assumes d: "deref h planServant = Some (PlanServantObj d)"
    and some: "rq_servants result instanceId = Some existing"
    and cur: "deref h (pc_current existing) = Some (EnhancementsObj current)"
    and tgt: "deref h (pc_target existing) = Some (EnhancementsObj target)"
    and sep: "pc_current existing \<noteq> pc_target existing" "pc_current existing \<noteq> planServant"
      "pc_target existing \<noteq> planServant"
    and out: "priv_computePlanServantRequirements_st h result gameServant masterServant instanceId
        planServant cc tc opts = (h', result', Some (c, requirements))"
  shows "c = existing
    \<and> enhancements_at h' (pc_current c) = target
    \<and> enhancements_at h' (pc_target c) = cloneEnhancements d
    \<and> requirements =
        priv_computeServantEnhancementRequirements gameServant target cc
          (cloneEnhancements d) (Some tc) (Some opts)"
proof -
  let ?c = "pc_current existing" and ?t = "pc_target existing"
  from cur have cl: "?c < length h" by (simp add: deref_def split: if_splits)
  from tgt have tl: "?t < length h" by (simp add: deref_def split: if_splits)
  from d have dl: "planServant < length h" by (simp add: deref_def split: if_splits)
  let ?h1 = "h[?c := EnhancementsObj target]"
  let ?h2 = "?h1[?t := EnhancementsObj (cloneEnhancements d)]"
  have u1: "updateEnhancements_st h ?c ?t = ?h1"
    using cur tgt
    by (simp add: updateEnhancements_st_def read_enhancements_def assign_def
        updateEnhancements_clone cloneEnhancements_id)
  have r: "read_enhancements ?h1 planServant = Some (cloneEnhancements d)"
    using d dl sep(2) by (simp add: read_enhancements_def deref_def)
  have t1: "deref ?h1 ?t = Some (EnhancementsObj target)"
    using tgt tl sep(1) by (simp add: deref_def)
  have u2: "updateEnhancements_st ?h1 ?t planServant = ?h2"
    using r t1
    by (simp add: updateEnhancements_st_def assign_def updateEnhancements_clone
        cloneEnhancements_id)
  have ec: "enhancements_at ?h2 ?c = target"
    using cl sep(1) by (simp add: enhancements_at_def read_enhancements_def deref_def)
  have et: "enhancements_at ?h2 ?t = cloneEnhancements d"
    using tl by (simp add: enhancements_at_def read_enhancements_def deref_def)
  from out some have "h' = ?h2" "c = existing"
    and "requirements = priv_computeServantEnhancementRequirements gameServant
          (enhancements_at ?h2 ?c) cc (enhancements_at ?h2 ?t) (Some tc) (Some opts)"
    by (auto simp: priv_computePlanServantRequirements_st_def Let_def u1 u2)
  with ec et show ?thesis by simp
qed

text \<open>
  Claim C9, as stated, fails. The pre-processing step does not copy the inventory mapping:
  the snapshot's \<open>items\<close> is the address of the caller's own mapping, an object of the store
  the caller handed over, whereas the set of costumes is a new object.
\<close>

theorem inventory_mapping_is_shared:
  "md_items (snd (priv_preProcessMasterAccount_st ex_store ex_account_refs)) =
     mr_items ex_account_refs
   \<and> md_items (snd (priv_preProcessMasterAccount_st ex_store ex_account_refs)) < length ex_store
   \<and> length ex_store \<le> md_costumes (snd (priv_preProcessMasterAccount_st ex_store ex_account_refs))"
  by code_simp

text \<open>
  Claim C9, amended. After \<open>computePlanRequirements\<close> and after
  \<open>computeServantEnhancementRequirements\<close> every object that the store held before the call
  is unchanged: the engine writes only into objects it has made. The pre-processing step
  adds one object to the store, the new set of unlocked costumes, and changes none; it
  copies the QP by value; the inventory mapping of the snapshot is the caller's own
  object, and the new index holds the caller's own servants. \<open>addEnhancementRequirements\<close>
  changes only the target record and the entries the target holds; an entry the target
  receives is a new object, so the source record and its entries are unchanged.
\<close>

theorem engine_leaves_caller_store_unchanged:
  "take (length h)
     (fst (computePlanRequirements_st h gameServantMap masterAccount targetPlan previousPlans
             optionsOverride)) = h
   \<and> take (length h)
       (fst (computeServantEnhancementRequirements_st h gameServant currentEnhancements
               currentCostumes options)) = h
   \<and> priv_preProcessMasterAccount_st h masterAccount =
       (h @ [CostumeSetObj (costume_ids h (mr_costumes masterAccount))],
        \<lparr>md_items = mr_items masterAccount,
         md_servants = mapIterableToObject_st h (mr_servants masterAccount),
         md_costumes = length h,
         md_qp = mr_qp masterAccount\<rparr>)
   \<and> (\<forall>instanceId servant.
         mapIterableToObject_st h (mr_servants masterAccount) instanceId = Some servant \<longrightarrow>
         servant \<in> set (mr_servants masterAccount))
   \<and> (\<forall>a. a < length h \<and> a \<noteq> target \<and> a \<notin> entries_of h target \<longrightarrow>
         deref (addEnhancementRequirements_st h target source) a = deref h a)
   \<and> entries_of (addEnhancementRequirements_st h target source) target \<subseteq>
       entries_of h target \<union> {a. length h \<le> a}"
  using kept_prefix [OF computePlanRequirements_st_kept]
  by (simp add: computeServantEnhancementRequirements_st_store priv_preProcessMasterAccount_st_eq
      mapIterableToObject_st_ran addEnhancementRequirements_st_frame
      addEnhancementRequirements_st_entries)

lemma fmran'_fmupd_fresh:
  "fmlookup m k = None \<Longrightarrow> fmran' (fmupd k v m) = insert v (fmran' m)"
proof (rule set_eqI)
  fix x
  assume n: "fmlookup m k = None"
  show "x \<in> fmran' (fmupd k v m) \<longleftrightarrow> x \<in> insert v (fmran' m)"
  proof
    assume "x \<in> fmran' (fmupd k v m)"
    then obtain i where "fmlookup (fmupd k v m) i = Some x"
      by (auto simp: fmran'_alt_def fmlookup_ran_iff)
    then show "x \<in> insert v (fmran' m)"
      by (cases "i = k") (auto intro: fmran'I)
  next
    assume "x \<in> insert v (fmran' m)"
    then consider "x = v" | i where "fmlookup m i = Some x"
      by (auto simp: fmran'_alt_def fmlookup_ran_iff)
    then show "x \<in> fmran' (fmupd k v m)"
    proof cases
      case 1
      have "fmlookup (fmupd k v m) k = Some x" using 1 by simp
      then show ?thesis by (rule fmran'I)
    next
      case 2
      with n have "i \<noteq> k" by auto
      with 2 have "fmlookup (fmupd k v m) i = Some x" by simp
      then show ?thesis by (rule fmran'I)
    qed
  qed
qed

lemma fmran'_fmempty: "fmran' fmempty = {}"
  by (auto simp: fmran'_alt_def fmlookup_ran_iff)

text \<open>
  On the small store the chain of plans A and B leaves the five objects of the caller as
  they are and adds three (the costume set and the two states of the servant); plan B
  costs 1100 as before. Adding the source record at address 2 to the target at address 0
  leaves the source and its entries at 3 and 4 unchanged, and gives the target a new
  entry at address 5.
\<close>

theorem engine_leaves_caller_store_unchanged_witness:
  "take (length ex_store)
     (fst (computePlanRequirements_st ex_store ex_catalog ex_account_refs (ex_plan_refs ''B'' [4])
             (Some [ex_plan_refs ''A'' [3]]) None)) = ex_store
   \<and> length (fst (computePlanRequirements_st ex_store ex_catalog ex_account_refs
                     (ex_plan_refs ''B'' [4]) (Some [ex_plan_refs ''A'' [3]]) None)) = 8
   \<and> required Ascensions
       (rq_targetPlan
          (snd (computePlanRequirements_st ex_store ex_catalog ex_account_refs
                  (ex_plan_refs ''B'' [4]) (Some [ex_plan_refs ''A'' [3]]) None))) 7 = 1100
   \<and> mapIterableToObject_st ex_store (mr_servants ex_account_refs) 1 = Some 2
   \<and> 2 \<in> set (mr_servants ex_account_refs)
   \<and> entries_of ex_requirements_store 0 = {1}
   \<and> entries_of ex_requirements_store 2 = {3, 4}
   \<and> deref (addEnhancementRequirements_st ex_requirements_store 0 2) 2 =
       deref ex_requirements_store 2
   \<and> deref (addEnhancementRequirements_st ex_requirements_store 0 2) 3 =
       deref ex_requirements_store 3
   \<and> deref (addEnhancementRequirements_st ex_requirements_store 0 2) 4 =
       deref ex_requirements_store 4
   \<and> entries_of (addEnhancementRequirements_st ex_requirements_store 0 2) 0 = {1, 5}"
proof -
  note main = engine_leaves_caller_store_unchanged
  note frame = main [THEN conjunct2, THEN conjunct2, THEN conjunct2, THEN conjunct2,
      THEN conjunct1, THEN spec, THEN mp]
  have walk: "take (length ex_store)
     (fst (computePlanRequirements_st ex_store ex_catalog ex_account_refs (ex_plan_refs ''B'' [4])
             (Some [ex_plan_refs ''A'' [3]]) None)) = ex_store"
    by (rule main [THEN conjunct1])
  have vals: "length (fst (computePlanRequirements_st ex_store ex_catalog ex_account_refs
                     (ex_plan_refs ''B'' [4]) (Some [ex_plan_refs ''A'' [3]]) None)) = 8
   \<and> required Ascensions
       (rq_targetPlan
          (snd (computePlanRequirements_st ex_store ex_catalog ex_account_refs
                  (ex_plan_refs ''B'' [4]) (Some [ex_plan_refs ''A'' [3]]) None))) 7 = 1100"
    by code_simp
  have idx: "mapIterableToObject_st ex_store (mr_servants ex_account_refs) 1 = Some 2"
    by code_simp
  have held: "2 \<in> set (mr_servants ex_account_refs)"
    using main [THEN conjunct2, THEN conjunct2, THEN conjunct2, THEN conjunct1, THEN spec,
        THEN spec, THEN mp] idx
    by blast
  have e0: "entries_of ex_requirements_store 0 = {1}"
    by (simp add: entries_of_def deref_def ex_requirements_store_def fmran'_fmupd_fresh
        fmran'_fmempty)
  have e2: "entries_of ex_requirements_store 2 = {3, 4}"
    by (simp add: entries_of_def deref_def ex_requirements_store_def fmran'_fmupd_fresh
        fmran'_fmempty)
  have len: "length ex_requirements_store = 5"
    by (simp add: ex_requirements_store_def)
  have s2: "deref (addEnhancementRequirements_st ex_requirements_store 0 2) 2 =
       deref ex_requirements_store 2"
    by (rule frame) (simp add: e0 len)
  have s3: "deref (addEnhancementRequirements_st ex_requirements_store 0 2) 3 =
       deref ex_requirements_store 3"
    by (rule frame) (simp add: e0 len)
  have s4: "deref (addEnhancementRequirements_st ex_requirements_store 0 2) 4 =
       deref ex_requirements_store 4"
    by (rule frame) (simp add: e0 len)
  have after: "deref (addEnhancementRequirements_st ex_requirements_store 0 2) 0 =
      Some (RequirementsObj
        \<lparr>rc_embers = \<lparr>em_1 = 0, em_2 = 0, em_3 = 0, em_4 = 0, em_5 = 0\<rparr>,
         rc_items = fmupd 7 1 (fmupd 8 5 fmempty), rc_qp = 15\<rparr>)"
    by code_simp
  have e5: "entries_of (addEnhancementRequirements_st ex_requirements_store 0 2) 0 = {1, 5}"
    by (simp add: entries_of_def after fmran'_fmupd_fresh fmran'_fmempty)
  from walk vals idx held e0 e2 s2 s3 s4 e5 show ?thesis
    by (simp only: simp_thms)
qed

end
